theory Spec2Isabelle
  imports Complex_Main "HOL-Library.AList" "HOL-Library.Product_Lexorder"
begin

section \<open>Python values shared by the modules\<close>

text \<open>
  Python integers are unbounded and are modelled as \<open>int\<close>.  Python floats (durations,
  time stamps, success rates) are modelled as \<open>real\<close>: the quotient of two attempt counters
  and the comparisons with the literals \<open>0.8\<close> and \<open>0.5\<close> are taken exactly.  A dictionary
  whose iteration order the code relies on is an association list in insertion order;
  \<open>map_of\<close> is the lookup and \<open>AList.update\<close> the assignment \<open>d[k] = v\<close> (an existing key
  keeps its position, a new key is appended).

  An exception is its class together with the text \<open>str(e)\<close> gives.
\<close>

datatype exc_class = ValueError | RuntimeError | TimeoutError | KeyError | IndexError
  | FileNotFoundError | HTTPError

datatype py_exception = PyException (exc_kind: exc_class) (exc_str: string)

section \<open>MetricsStore: \<open>fallback_ai_manager.py\<close>, \<open>update_model_metrics\<close> and readers\<close>

record model_metrics =
  total_attempts :: int
  successful_attempts :: int
  total_duration :: real
  last_used :: real

type_synonym metrics_table = "(string \<times> model_metrics) list"

text \<open>
  \<open>update_model_metrics(model_name, success, duration)\<close>.  The reading of \<open>time.time()\<close>
  that becomes \<open>last_used\<close> is the argument \<open>now\<close>.
\<close>

definition update_model_metrics ::
  "string \<Rightarrow> bool \<Rightarrow> real \<Rightarrow> real \<Rightarrow> metrics_table \<Rightarrow> metrics_table" where
  "update_model_metrics model_name success duration now model_metrics =
     (let model_metrics1 =
            (if map_of model_metrics model_name = None
             then AList.update model_name
                    \<lparr>total_attempts = 0, successful_attempts = 0,
                     total_duration = 0, last_used = 0\<rparr> model_metrics
             else model_metrics);
          metrics = the (map_of model_metrics1 model_name);
          metrics1 = metrics\<lparr>total_attempts := total_attempts metrics + 1\<rparr>;
          metrics2 = metrics1\<lparr>total_duration := total_duration metrics1 + duration\<rparr>;
          metrics3 = metrics2\<lparr>last_used := now\<rparr>;
          metrics4 = (if success
                      then metrics3\<lparr>successful_attempts := successful_attempts metrics3 + 1\<rparr>
                      else metrics3)
      in AList.update model_name metrics4 model_metrics1)"

definition get_model_success_rate :: "metrics_table \<Rightarrow> string \<Rightarrow> real" where
  "get_model_success_rate model_metrics model_name =
     (case map_of model_metrics model_name of
        None \<Rightarrow> 1
      | Some metrics \<Rightarrow>
          if total_attempts metrics = 0 then 1
          else real_of_int (successful_attempts metrics) / real_of_int (total_attempts metrics))"

datatype health_status = healthy | degraded | unhealthy

record model_health =
  h_success_rate :: real
  h_total_attempts :: int
  h_successful_attempts :: int
  h_average_duration :: real
  h_last_used :: real
  h_status :: health_status

record system_health =
  health_models :: "(string \<times> model_health) list"
  overall_health :: health_status
  health_timestamp :: real

text \<open>The body of the \<open>for model_name, metrics in self.model_metrics.items()\<close> loop.\<close>

fun health_loop ::
  "metrics_table \<Rightarrow> (string \<times> model_metrics) list \<Rightarrow> system_health \<Rightarrow> system_health" where
  "health_loop model_metrics [] health = health"
| "health_loop model_metrics ((model_name, metrics) # rest) health =
     (let success_rate = get_model_success_rate model_metrics model_name;
          entry = \<lparr>h_success_rate = success_rate,
                   h_total_attempts = total_attempts metrics,
                   h_successful_attempts = successful_attempts metrics,
                   h_average_duration =
                     (if total_attempts metrics > 0
                      then total_duration metrics / real_of_int (total_attempts metrics)
                      else 0),
                   h_last_used = last_used metrics,
                   h_status = (if success_rate > 0.8 then healthy
                               else if success_rate > 0.5 then degraded else unhealthy)\<rparr>;
          health1 = health\<lparr>health_models :=
                      AList.update model_name entry (health_models health)\<rparr>;
          health2 = (if h_status entry \<noteq> healthy
                     then health1\<lparr>overall_health := degraded\<rparr> else health1)
      in health_loop model_metrics rest health2)"

definition get_system_health :: "metrics_table \<Rightarrow> real \<Rightarrow> system_health" where
  "get_system_health model_metrics now =
     health_loop model_metrics model_metrics
       \<lparr>health_models = [], overall_health = healthy, health_timestamp = now\<rparr>"

text \<open>A metrics table for the examples: success rates 0.9, 0.8 and 0.2.\<close>

definition demo_metrics :: metrics_table where
  "demo_metrics =
     [(''ollama/llama3'', \<lparr>total_attempts = 10, successful_attempts = 9,
                            total_duration = 5, last_used = 1\<rparr>),
      (''ollama/mistral'', \<lparr>total_attempts = 10, successful_attempts = 8,
                             total_duration = 5, last_used = 2\<rparr>),
      (''ollama/gemma'', \<lparr>total_attempts = 10, successful_attempts = 2,
                           total_duration = 5, last_used = 3\<rparr>)]"

section \<open>Structured router: \<open>ai_task_router.py\<close>\<close>

datatype TaskType = CODE_ANALYSIS | CODE_GENERATION | TEXT_GENERATION | IMAGE_ANALYSIS
  | GENERAL_QA | DOCUMENTATION | DEBUGGING | OPTIMIZATION

fun TaskType_name :: "TaskType \<Rightarrow> string" where
  "TaskType_name CODE_ANALYSIS = ''CODE_ANALYSIS''"
| "TaskType_name CODE_GENERATION = ''CODE_GENERATION''"
| "TaskType_name TEXT_GENERATION = ''TEXT_GENERATION''"
| "TaskType_name IMAGE_ANALYSIS = ''IMAGE_ANALYSIS''"
| "TaskType_name GENERAL_QA = ''GENERAL_QA''"
| "TaskType_name DOCUMENTATION = ''DOCUMENTATION''"
| "TaskType_name DEBUGGING = ''DEBUGGING''"
| "TaskType_name OPTIMIZATION = ''OPTIMIZATION''"

record AIModel =
  name :: string
  task_types :: "TaskType list"
  priority :: int
  memory_requirement :: int
  is_available :: bool

text \<open>The dictionary \<open>AIModel.to_dict\<close> returns, one field per key.\<close>

record AIModel_dict =
  dict_name :: string
  dict_task_types :: "string list"
  dict_priority :: int
  dict_memory_requirement_mb :: int
  dict_is_available :: bool

definition to_dict :: "AIModel \<Rightarrow> AIModel_dict" where
  "to_dict model =
     \<lparr>dict_name = name model,
      dict_task_types = map TaskType_name (task_types model),
      dict_priority = priority model,
      dict_memory_requirement_mb = memory_requirement model,
      dict_is_available = is_available model\<rparr>"

text \<open>
  \<open>_initialize_models\<close>: the catalogue \<open>self.available_models\<close>, a dictionary from the
  model's name to its descriptor, in insertion order.
\<close>

definition initialize_models :: "(string \<times> AIModel) list" where
  "initialize_models =
     [(''codellama:7b-instruct'',
        \<lparr>name = ''codellama:7b-instruct'',
         task_types = [CODE_ANALYSIS, CODE_GENERATION, DEBUGGING, OPTIMIZATION, DOCUMENTATION],
         priority = 1, memory_requirement = 3800, is_available = True\<rparr>),
      (''llama3:8b'',
        \<lparr>name = ''llama3:8b'',
         task_types = [TEXT_GENERATION, GENERAL_QA, DOCUMENTATION],
         priority = 2, memory_requirement = 4700, is_available = True\<rparr>),
      (''mistral:latest'',
        \<lparr>name = ''mistral:latest'',
         task_types = [TEXT_GENERATION, GENERAL_QA],
         priority = 3, memory_requirement = 4400, is_available = True\<rparr>),
      (''llava:latest'',
        \<lparr>name = ''llava:latest'',
         task_types = [IMAGE_ANALYSIS],
         priority = 4, memory_requirement = 4700, is_available = True\<rparr>),
      (''zephyr:7b-beta'',
        \<lparr>name = ''zephyr:7b-beta'',
         task_types = [TEXT_GENERATION, GENERAL_QA],
         priority = 5, memory_requirement = 4100, is_available = True\<rparr>),
      (''gemma:2b'',
        \<lparr>name = ''gemma:2b'',
         task_types = [TEXT_GENERATION, GENERAL_QA],
         priority = 6, memory_requirement = 1700, is_available = True\<rparr>)]"

text \<open>
  \<open>update_model_availability\<close> once the listing of installed models has been read: every
  descriptor's flag becomes the membership of its key in \<open>installed_models\<close>.
\<close>

definition update_model_availability ::
  "string list \<Rightarrow> (string \<times> AIModel) list \<Rightarrow> (string \<times> AIModel) list" where
  "update_model_availability installed_models available_models =
     map (\<lambda>(model_name, model).
            (model_name, model\<lparr>is_available := (model_name \<in> set installed_models)\<rparr>))
       available_models"

text \<open>
  ResourceProbe, \<open>get_available_memory\<close>.  What the two measurement sources do is the
  environment of the call: importing \<open>torch\<close> fails, or CUDA is absent, or the device reports
  its total memory in bytes; the \<open>nvidia-smi\<close> command prints an integer, or prints something
  \<open>int()\<close> rejects (\<open>ValueError\<close>, caught), or exits with an error (\<open>CalledProcessError\<close>,
  caught), or cannot be started (\<open>FileNotFoundError\<close>, which no handler of the function
  catches).
\<close>

datatype torch_probe = Torch_import_error | Torch_no_cuda | Torch_total_memory int

datatype nvidia_smi_probe = Smi_prints int | Smi_unparsable | Smi_called_process_error
  | Smi_file_not_found

record probe_env =
  torch :: torch_probe
  nvidia_smi :: nvidia_smi_probe

definition get_available_memory :: "probe_env \<Rightarrow> py_exception + int" where
  "get_available_memory env =
     (case torch env of
        Torch_total_memory total_memory \<Rightarrow> Inr (total_memory div (1024 * 1024))
      | _ \<Rightarrow>
         (case nvidia_smi env of
            Smi_prints n \<Rightarrow> Inr n
          | Smi_unparsable \<Rightarrow> Inr (6 * 1024)
          | Smi_called_process_error \<Rightarrow> Inr (6 * 1024)
          | Smi_file_not_found \<Rightarrow>
              Inl (PyException FileNotFoundError
                     (''[Errno 2] No such file or directory: '' @
                      [CHR 0x27] @ ''nvidia-smi'' @ [CHR 0x27]))))"

text \<open>
  Python's \<open>min(xs, key=f)\<close> on a non-empty list: the first element whose key is least.
\<close>

fun min_by :: "('a \<Rightarrow> int) \<Rightarrow> 'a \<Rightarrow> 'a list \<Rightarrow> 'a" where
  "min_by f best [] = best"
| "min_by f best (x # xs) = min_by f (if f x < f best then x else best) xs"

text \<open>
  \<open>route_task(task_type)\<close>.  \<open>list.sort(key=...)\<close> is a stable sort on the key tuples, which
  Python compares lexicographically; \<open>sort_key\<close> is stable and the order on pairs is the
  lexicographic one.  The warning logged on the degraded path has no effect on the result.
\<close>

definition route_task ::
  "(string \<times> AIModel) list \<Rightarrow> probe_env \<Rightarrow> TaskType \<Rightarrow>
     py_exception + (string \<times> AIModel_dict)" where
  "route_task available_models env task_type =
     (let suitable_models =
            filter (\<lambda>model. task_type \<in> set (task_types model) \<and> is_available model)
              (map snd available_models)
      in if suitable_models = []
         then Inl (PyException ValueError
                     (''No suitable models available for task type: TaskType.'' @
                      TaskType_name task_type))
         else
           let sorted_models =
                 sort_key (\<lambda>m. (priority m, memory_requirement m)) suitable_models
           in case get_available_memory env of
                Inl e \<Rightarrow> Inl e
              | Inr available_memory \<Rightarrow>
                 (case find (\<lambda>model. memory_requirement model \<le> available_memory)
                         sorted_models of
                    Some model \<Rightarrow> Inr (name model, to_dict model)
                  | None \<Rightarrow>
                     (let smallest_model =
                            min_by memory_requirement (hd sorted_models) (tl sorted_models)
                      in Inr (name smallest_model, to_dict smallest_model))))"

text \<open>A probe environment for the examples: no \<open>torch\<close>, and \<open>nvidia-smi\<close> prints 4500.\<close>

definition demo_env :: probe_env where
  "demo_env = \<lparr>torch = Torch_import_error, nvidia_smi = Smi_prints 4500\<rparr>"

text \<open>
  A probe environment in which neither source can be read: \<open>torch\<close> is not installed and
  the \<open>nvidia-smi\<close> command does not exist.
\<close>

definition demo_env_no_probe :: probe_env where
  "demo_env_no_probe = \<lparr>torch = Torch_import_error, nvidia_smi = Smi_file_not_found\<rparr>"

section \<open>Keyword router: \<open>ai_task_router_temp.py\<close>\<close>

text \<open>
  A task's configuration is a YAML mapping; its entries that the repository reads are the
  fields below, each absent (\<open>None\<close>) or present.  The empty dictionary \<open>{}\<close> has every
  entry absent.  \<open>self.config\<close> holds the \<open>tasks\<close> mapping in declaration order (the
  constructor refuses a configuration without it) and the optional \<open>default_task\<close>.
\<close>

record task_config =
  routing_keywords :: "string list option"
  primary_model :: "string option"
  fallback_models :: "string list option"
  models :: "string list option"

definition empty_task_config :: task_config where
  "empty_task_config =
     \<lparr>routing_keywords = None, primary_model = None, fallback_models = None, models = None\<rparr>"

record router_config =
  tasks :: "(string \<times> task_config) list"
  default_task :: "string option"

text \<open>
  \<open>str.lower\<close> on the characters of a HOL string: the letters \<open>A\<close> to \<open>Z\<close> become \<open>a\<close> to
  \<open>z\<close>, every other character stays.  \<open>needle in haystack\<close> on strings is \<open>str_contains\<close>.
\<close>

definition char_lower :: "char \<Rightarrow> char" where
  "char_lower c =
     (let n = (of_char c :: nat) in if 65 \<le> n \<and> n \<le> 90 then char_of (n + 32) else c)"

definition lower :: "string \<Rightarrow> string" where
  "lower s = map char_lower s"

fun is_prefix :: "string \<Rightarrow> string \<Rightarrow> bool" where
  "is_prefix [] s = True"
| "is_prefix (c # cs) [] = False"
| "is_prefix (c # cs) (d # ds) = (c = d \<and> is_prefix cs ds)"

fun str_contains :: "string \<Rightarrow> string \<Rightarrow> bool" where
  "str_contains needle [] = (needle = [])"
| "str_contains needle (c # cs) = (is_prefix needle (c # cs) \<or> str_contains needle cs)"

text \<open>
  The inner loop \<open>for keyword in task_config.get('routing_keywords', [])\<close>: whether it
  reaches its \<open>return\<close>.
\<close>

fun keyword_loop :: "string \<Rightarrow> string list \<Rightarrow> bool" where
  "keyword_loop prompt_lower [] = False"
| "keyword_loop prompt_lower (keyword # rest) =
     (if str_contains (lower keyword) prompt_lower then True
      else keyword_loop prompt_lower rest)"

text \<open>
  The outer loop \<open>for task_name, task_config in self.config['tasks'].items()\<close>: the
  configuration returned from inside it, if any.
\<close>

fun task_loop :: "string \<Rightarrow> (string \<times> task_config) list \<Rightarrow> task_config option" where
  "task_loop prompt_lower [] = None"
| "task_loop prompt_lower ((task_name, task_config) # rest) =
     (if keyword_loop prompt_lower
           (case routing_keywords task_config of None \<Rightarrow> [] | Some kws \<Rightarrow> kws)
      then Some task_config
      else task_loop prompt_lower rest)"

text \<open>
  \<open>route_task(prompt)\<close> of the keyword router.  No statement of the function raises on a
  configuration of this type, so the result is always \<open>Inr\<close>; the sum type is kept so that
  the absence of an error can be stated.
\<close>

definition route_task_prompt :: "router_config \<Rightarrow> string \<Rightarrow> py_exception + task_config" where
  "route_task_prompt config prompt =
     (let prompt_lower = lower prompt in
      case task_loop prompt_lower (tasks config) of
        Some task_config \<Rightarrow> Inr task_config
      | None \<Rightarrow>
         (let default_task_name =
                (case default_task config of None \<Rightarrow> ''general_chat'' | Some n \<Rightarrow> n)
          in Inr (case map_of (tasks config) default_task_name of
                    None \<Rightarrow> empty_task_config
                  | Some task_config \<Rightarrow> task_config)))"

text \<open>
  For stating the routing properties: the keywords a task configures, and a task
  \<^emph>\<open>matching\<close> a prompt, which is that one of its keywords, lowercased, is a substring of
  the lowercased prompt.
\<close>

definition configured_keywords :: "task_config \<Rightarrow> string list" where
  "configured_keywords task_config =
     (case routing_keywords task_config of None \<Rightarrow> [] | Some kws \<Rightarrow> kws)"

definition task_matches :: "string \<Rightarrow> task_config \<Rightarrow> bool" where
  "task_matches prompt task_config =
     (\<exists>keyword \<in> set (configured_keywords task_config).
        \<exists>before after. lower prompt = before @ lower keyword @ after)"

text \<open>A configuration for the examples: two tasks whose keywords overlap, and a default.\<close>

definition demo_config :: router_config where
  "demo_config =
     \<lparr>tasks =
        [(''code_analysis'',
            \<lparr>routing_keywords = Some [''code'', ''Analyze''], primary_model = None,
             fallback_models = None, models = Some [''ollama/codellama'']\<rparr>),
         (''code_review'',
            \<lparr>routing_keywords = Some [''analyze this python code''], primary_model = None,
             fallback_models = None, models = Some [''openai/gpt-4'']\<rparr>),
         (''general_chat'',
            \<lparr>routing_keywords = None, primary_model = None,
             fallback_models = None, models = Some [''ollama/llama3'']\<rparr>)],
      default_task = Some ''general_chat''\<rparr>"

text \<open>The example configuration with a default task that is not among its tasks.\<close>

definition demo_config_no_default :: router_config where
  "demo_config_no_default = demo_config\<lparr>default_task := Some ''smalltalk''\<rparr>"

section \<open>Fallback manager: \<open>fallback_ai_manager.py\<close>\<close>

subsection \<open>Attempts, log events, the manager and its surroundings\<close>

record 'r ModelAttempt =
  attempt_model_name :: string
  attempt_success :: bool
  attempt_response :: "'r option"
  attempt_error :: "py_exception option"
  attempt_duration :: real
  attempt_retry_count :: int

text \<open>\<open>ModelAttempt(model_name=...)\<close>: every other field takes its default.\<close>

definition new_attempt :: "string \<Rightarrow> 'r ModelAttempt" where
  "new_attempt model_name =
     \<lparr>attempt_model_name = model_name, attempt_success = False, attempt_response = None,
      attempt_error = None, attempt_duration = 0, attempt_retry_count = 0\<rparr>"

text \<open>\<open>ModelAttempt.to_dict\<close>; its \<open>error\<close> is \<open>str(self.error) if self.error else None\<close>.\<close>

record attempt_dict =
  ad_model_name :: string
  ad_success :: bool
  ad_error :: "string option"
  ad_duration :: real
  ad_retry_count :: int

definition attempt_to_dict :: "'r ModelAttempt \<Rightarrow> attempt_dict" where
  "attempt_to_dict attempt =
     \<lparr>ad_model_name = attempt_model_name attempt,
      ad_success = attempt_success attempt,
      ad_error = map_option exc_str (attempt_error attempt),
      ad_duration = attempt_duration attempt,
      ad_retry_count = attempt_retry_count attempt\<rparr>"

text \<open>
  The two kinds of event passed to \<open>_log_performance_event\<close>, one constructor per value of
  the \<open>event\<close> key and one argument per further key, the \<open>timestamp\<close> last.  The event of a
  successful attempt has no \<open>error\<close> key; its \<open>ev_error\<close> is \<open>None\<close>.
\<close>

datatype perf_event =
    Model_attempt (ev_model_name: string) (ev_success: bool) (ev_error: "string option")
      (ev_duration: real) (ev_retry_count: int) (ev_task_type: string)
      (ev_fallback_chain: "string list") (ev_fallback_index: nat) (ev_timestamp: real)
  | Fallback_chain_exhausted (ev_task_type: string) (ev_fallback_chain: "string list")
      (ev_attempts: "attempt_dict list") (ev_last_model_used: "string option")
      (ev_success: bool) (ev_error: "string option") (ev_timestamp: real)

text \<open>
  The manager's configuration.  \<open>timeout_repr\<close> is the text an f-string gives for
  \<open>self.timeout\<close>.  \<open>get_fallback_chain\<close> reads \<open>self.fallback_chains\<close>, an attribute the class
  assigns nowhere: the table of chains (task type to chain) is a field supplied with the
  manager.
\<close>

record manager =
  tasks_config :: "(string \<times> task_config) list"
  max_retries :: int
  timeout :: real
  timeout_repr :: string
  fallback_chains :: "(string \<times> string list) list"

text \<open>
  What a run changes and observes: the metrics table, the events passed to
  \<open>_log_performance_event\<close> (a failure to write one to the file is caught there and changes
  nothing else), the clock \<open>time.time()\<close> reads, the model names the task function or a
  provider client has been called with, and the URLs posted to.  The clock advances while
  a call is awaited and during \<open>asyncio.sleep\<close>, and stands still otherwise.
\<close>

record world =
  metrics :: metrics_table
  perf_log :: "perf_event list"
  clock :: real
  calls :: "string list"
  http_requests :: "string list"

text \<open>
  What the \<open>try\<close> statement sees of \<open>await asyncio.wait_for(task_func(model_name, ...),
  timeout)\<close>: a result, an exception of class \<open>Exception\<close>, or the timeout; with the time
  the call took.  A task function is given the number of calls made before, so that it
  may answer differently from call to call.
\<close>

datatype 'r outcome = Returns 'r real | Raises py_exception real | Times_out

type_synonym 'r task_func = "nat \<Rightarrow> string \<Rightarrow> 'r outcome"

definition is_failure :: "'r outcome \<Rightarrow> bool" where
  "is_failure out = (case out of Returns r d \<Rightarrow> False | Raises e d \<Rightarrow> True | Times_out \<Rightarrow> True)"

definition log_performance_event :: "(real \<Rightarrow> perf_event) \<Rightarrow> world \<Rightarrow> world" where
  "log_performance_event event w = w\<lparr>perf_log := perf_log w @ [event (clock w)]\<rparr>"

definition record_metrics :: "string \<Rightarrow> bool \<Rightarrow> real \<Rightarrow> world \<Rightarrow> world" where
  "record_metrics model_name success duration w =
     w\<lparr>metrics := update_model_metrics model_name success duration (clock w) (metrics w)\<rparr>"

text \<open>Python's \<open>range(n)\<close>: empty when \<open>n \<le> 0\<close>.\<close>

definition py_range :: "int \<Rightarrow> int list" where
  "py_range n = map int [0..<nat n]"

subsection \<open>\<open>get_fallback_chain\<close> and \<open>execute_with_fallback\<close>\<close>

text \<open>
  \<open>self.fallback_chains.get(task_type, self.fallback_chains['text'])\<close>: the default
  argument is evaluated before \<open>get\<close> is called, so a table without the key \<open>'text'\<close>
  raises \<open>KeyError\<close> whatever the task type.
\<close>

definition get_fallback_chain :: "manager \<Rightarrow> string \<Rightarrow> py_exception + string list" where
  "get_fallback_chain m task_type =
     (case map_of (fallback_chains m) ''text'' of
        None \<Rightarrow> Inl (PyException KeyError ([CHR 0x27] @ ''text'' @ [CHR 0x27]))
      | Some text_chain \<Rightarrow>
          Inr (case map_of (fallback_chains m) task_type of
                 None \<Rightarrow> text_chain
               | Some chain \<Rightarrow> chain))"

text \<open>
  The \<open>finally\<close> clause of the retry loop's \<open>try\<close>.  It runs after a failed attempt and
  also after the \<open>return\<close> of a successful one.
\<close>

definition finally_clause ::
  "string \<Rightarrow> string list \<Rightarrow> nat \<Rightarrow> string \<Rightarrow> real \<Rightarrow> 'r ModelAttempt \<Rightarrow> world \<Rightarrow>
     'r ModelAttempt \<times> world" where
  "finally_clause task_type fallback_chain model_idx model_name start_time attempt w =
     (let attempt1 = attempt\<lparr>attempt_duration := clock w - start_time\<rparr>;
          w1 = record_metrics model_name (attempt_success attempt1)
                 (attempt_duration attempt1) w;
          w2 = (if \<not> attempt_success attempt1
                then log_performance_event
                       (Model_attempt model_name False
                          (map_option exc_str (attempt_error attempt1))
                          (attempt_duration attempt1) (attempt_retry_count attempt1)
                          task_type fallback_chain model_idx) w1
                else w1)
      in (attempt1, w2))"

text \<open>
  How one pass of the retry loop ends: with the function's \<open>return\<close>, or by going on with
  the attempt object and \<open>last_error\<close> as they then are.
\<close>

datatype 'r retry_flow =
    Return 'r "'r ModelAttempt" world
  | Continue "'r ModelAttempt" "py_exception option" world

definition try_model ::
  "manager \<Rightarrow> 'r task_func \<Rightarrow> string \<Rightarrow> string list \<Rightarrow> nat \<Rightarrow> string \<Rightarrow> real \<Rightarrow> int \<Rightarrow>
     'r ModelAttempt \<Rightarrow> py_exception option \<Rightarrow> world \<Rightarrow> 'r retry_flow" where
  "try_model m task_func task_type fallback_chain model_idx model_name start_time retry
       attempt last_error w =
     (let attempt1 = attempt\<lparr>attempt_retry_count := retry\<rparr>;
          w0 = w\<lparr>calls := calls w @ [model_name]\<rparr>
      in case task_func (length (calls w)) model_name of
           Returns result elapsed \<Rightarrow>
             (let w1 = w0\<lparr>clock := clock w0 + elapsed\<rparr>;
                  attempt2 = attempt1\<lparr>attempt_duration := clock w1 - start_time\<rparr>;
                  attempt3 = attempt2\<lparr>attempt_success := True\<rparr>;
                  attempt4 = attempt3\<lparr>attempt_response := Some result\<rparr>;
                  w2 = record_metrics model_name True (attempt_duration attempt4) w1;
                  w3 = log_performance_event
                         (Model_attempt model_name True None (attempt_duration attempt4)
                            (attempt_retry_count attempt4) task_type fallback_chain model_idx)
                         w2;
                  (attempt5, w4) = finally_clause task_type fallback_chain model_idx
                                     model_name start_time attempt4 w3
              in Return result attempt5 w4)
         | Times_out \<Rightarrow>
             (let w1 = w0\<lparr>clock := clock w0 + timeout m\<rparr>;
                  error_msg = ''Model '' @ model_name @ '' timed out after '' @
                              timeout_repr m @ ''s'';
                  last_error1 = PyException TimeoutError error_msg;
                  attempt2 = attempt1\<lparr>attempt_error := Some last_error1\<rparr>;
                  (attempt3, w2) = finally_clause task_type fallback_chain model_idx
                                     model_name start_time attempt2 w1
              in Continue attempt3 (Some last_error1) w2)
         | Raises e elapsed \<Rightarrow>
             (let w1 = w0\<lparr>clock := clock w0 + elapsed\<rparr>;
                  attempt2 = attempt1\<lparr>attempt_error := Some e\<rparr>;
                  (attempt3, w2) = finally_clause task_type fallback_chain model_idx
                                     model_name start_time attempt2 w1
              in Continue attempt3 (Some e) w2))"

text \<open>\<open>for retry in range(self.max_retries)\<close>, over the retries that remain.\<close>

fun retry_loop ::
  "manager \<Rightarrow> 'r task_func \<Rightarrow> string \<Rightarrow> string list \<Rightarrow> nat \<Rightarrow> string \<Rightarrow> real \<Rightarrow> int list \<Rightarrow>
     'r ModelAttempt \<Rightarrow> py_exception option \<Rightarrow> world \<Rightarrow> 'r retry_flow" where
  "retry_loop m task_func task_type fallback_chain model_idx model_name start_time []
       attempt last_error w = Continue attempt last_error w"
| "retry_loop m task_func task_type fallback_chain model_idx model_name start_time
       (retry # retries) attempt last_error w =
     (case try_model m task_func task_type fallback_chain model_idx model_name start_time
             retry attempt last_error w of
        Return result attempt1 w1 \<Rightarrow> Return result attempt1 w1
      | Continue attempt1 last_error1 w1 \<Rightarrow>
          retry_loop m task_func task_type fallback_chain model_idx model_name start_time
            retries attempt1 last_error1 w1)"

text \<open>
  \<open>for model_idx, model_name in enumerate(fallback_chain)\<close>, over the pairs that remain:
  it ends with the function's \<open>return\<close> or falls through with \<open>last_error\<close>,
  \<open>last_model_used\<close> and \<open>fallback_event_chain\<close>.
\<close>

datatype 'r chain_flow =
    Returned 'r "'r ModelAttempt" world
  | Exhausted "py_exception option" "string option" "attempt_dict list" world

fun chain_loop ::
  "manager \<Rightarrow> 'r task_func \<Rightarrow> string \<Rightarrow> string list \<Rightarrow> (nat \<times> string) list \<Rightarrow>
     py_exception option \<Rightarrow> string option \<Rightarrow> attempt_dict list \<Rightarrow> world \<Rightarrow> 'r chain_flow" where
  "chain_loop m task_func task_type fallback_chain [] last_error last_model_used
       fallback_event_chain w =
     Exhausted last_error last_model_used fallback_event_chain w"
| "chain_loop m task_func task_type fallback_chain ((model_idx, model_name) # rest)
       last_error last_model_used fallback_event_chain w =
     (let attempt = new_attempt model_name;
          start_time = clock w
      in case retry_loop m task_func task_type fallback_chain model_idx model_name
                start_time (py_range (max_retries m)) attempt last_error w of
           Return result attempt1 w1 \<Rightarrow> Returned result attempt1 w1
         | Continue attempt1 last_error1 w1 \<Rightarrow>
             chain_loop m task_func task_type fallback_chain rest last_error1
               (Some model_name) (fallback_event_chain @ [attempt_to_dict attempt1]) w1)"

text \<open>
  \<open>execute_with_fallback(task_func, task_type, ...)\<close>: \<open>Inl\<close> when \<open>get_fallback_chain\<close>
  raises, else the returned pair together with the world the run leaves.
\<close>

definition execute_with_fallback ::
  "manager \<Rightarrow> 'r task_func \<Rightarrow> string \<Rightarrow> world \<Rightarrow>
     py_exception + ('r option \<times> 'r ModelAttempt \<times> world)" where
  "execute_with_fallback m task_func task_type w =
     (case get_fallback_chain m task_type of
        Inl e \<Rightarrow> Inl e
      | Inr fallback_chain \<Rightarrow>
         (case chain_loop m task_func task_type fallback_chain
                 (zip [0..<length fallback_chain] fallback_chain) None None [] w of
            Returned result attempt w1 \<Rightarrow> Inr (Some result, attempt, w1)
          | Exhausted last_error last_model_used fallback_event_chain w1 \<Rightarrow>
              (let w2 = log_performance_event
                          (Fallback_chain_exhausted task_type fallback_chain
                             fallback_event_chain last_model_used False
                             (map_option exc_str last_error)) w1
               in Inr (None,
                       \<lparr>attempt_model_name = '''', attempt_success = False,
                        attempt_response = None,
                        attempt_error =
                          Some (PyException RuntimeError
                                  ''All models in fallback chain failed''),
                        attempt_duration = 0, attempt_retry_count = 0\<rparr>,
                       w2))))"

text \<open>
  For stating the properties: the two attempt counters of a model as the table holds them
  (0 for a model the table does not track), and for a log event whether it is a
  \<open>model_attempt\<close>, and then for which model and with which \<open>success\<close>.
\<close>

definition total_of :: "metrics_table \<Rightarrow> string \<Rightarrow> int" where
  "total_of mm model_name =
     (case map_of mm model_name of None \<Rightarrow> 0 | Some x \<Rightarrow> total_attempts x)"

definition success_of :: "metrics_table \<Rightarrow> string \<Rightarrow> int" where
  "success_of mm model_name =
     (case map_of mm model_name of None \<Rightarrow> 0 | Some x \<Rightarrow> successful_attempts x)"

fun attempt_event_of :: "perf_event \<Rightarrow> (string \<times> bool) option" where
  "attempt_event_of (Model_attempt model_name success err dur rc tt chain idx ts) =
     Some (model_name, success)"
| "attempt_event_of (Fallback_chain_exhausted tt chain attempts lmu success err ts) = None"

text \<open>
  For the examples: a manager with the chain of the specification's test, a world in which
  nothing has happened yet, and task functions of which \<open>p1/modelA\<close> always raises and
  \<open>p2/modelB\<close> always answers, or every model raises.
\<close>

definition demo_manager :: manager where
  "demo_manager =
     \<lparr>tasks_config =
        [(''chat'', \<lparr>routing_keywords = None, primary_model = None,
                     fallback_models = None, models = Some [''openai/gpt-4'']\<rparr>)],
      max_retries = 2, timeout = 60, timeout_repr = ''60.0'',
      fallback_chains = [(''text'', [''p1/modelA'', ''p2/modelB''])]\<rparr>"

definition initial_world :: world where
  "initial_world = \<lparr>metrics = [], perf_log = [], clock = 0, calls = [], http_requests = []\<rparr>"

definition demo_task :: "string task_func" where
  "demo_task k model_name =
     (if model_name = ''p2/modelB'' then Returns (''Response from '' @ model_name) 3
      else Raises (PyException ValueError ''Simulated failure'') 1)"

definition failing_task :: "string task_func" where
  "failing_task k model_name = Raises (PyException ValueError ''Simulated failure'') 1"

text \<open>
  The two example runs, and the parts of what a run returns: the result, the attempt
  record and the world it leaves.
\<close>

definition run_result :: "py_exception + ('r option \<times> 'r ModelAttempt \<times> world) \<Rightarrow> 'r option" where
  "run_result run = fst (projr run)"

definition run_attempt ::
  "py_exception + ('r option \<times> 'r ModelAttempt \<times> world) \<Rightarrow> 'r ModelAttempt" where
  "run_attempt run = fst (snd (projr run))"

definition run_world :: "py_exception + ('r option \<times> 'r ModelAttempt \<times> world) \<Rightarrow> world" where
  "run_world run = snd (snd (projr run))"

definition demo_run :: "py_exception + (string option \<times> string ModelAttempt \<times> world)" where
  "demo_run = execute_with_fallback demo_manager demo_task ''text'' initial_world"

definition demo_failed_run ::
  "py_exception + (string option \<times> string ModelAttempt \<times> world)" where
  "demo_failed_run = execute_with_fallback demo_manager failing_task ''code'' initial_world"

text \<open>
  The example manager with a third model after the two of the specification's test, and
  the run of the example task function on it.
\<close>

definition demo_long_manager :: manager where
  "demo_long_manager =
     demo_manager\<lparr>fallback_chains :=
       [(''text'', [''p1/modelA'', ''p2/modelB'', ''p3/modelC''])]\<rparr>"

definition demo_long_run ::
  "py_exception + (string option \<times> string ModelAttempt \<times> world)" where
  "demo_long_run = execute_with_fallback demo_long_manager demo_task ''text'' initial_world"

subsection \<open>Provider clients and \<open>execute_task\<close>\<close>

















definition quoted :: "string \<Rightarrow> string" where
  "quoted s = [CHR 0x27] @ s @ [CHR 0x27]"







section \<open>Properties of the metrics store\<close>

lemma update_fresh_lookup:
  "map_of (update_model_metrics n s d now mm) n =
     Some (let m = (case map_of mm n of None \<Rightarrow>
                      \<lparr>total_attempts = 0, successful_attempts = 0,
                       total_duration = 0, last_used = 0\<rparr> | Some m \<Rightarrow> m)
           in \<lparr>total_attempts = total_attempts m + 1,
               successful_attempts = (if s then successful_attempts m + 1
                                      else successful_attempts m),
               total_duration = total_duration m + d, last_used = now\<rparr>)"
  by (cases "map_of mm n") (simp_all add: update_model_metrics_def Let_def update_conv')

lemma health_loop_overall:
  "overall_health (health_loop mm xs h) =
     (if \<exists>n \<in> fst ` set xs. \<not> get_model_success_rate mm n > 0.8 then degraded
      else overall_health h)"
  by (induction mm xs h rule: health_loop.induct) (auto simp: Let_def)

lemma health_loop_other:
  "n \<notin> fst ` set xs \<Longrightarrow>
   map_of (health_models (health_loop mm xs h)) n = map_of (health_models h) n"
  by (induction mm xs h rule: health_loop.induct) (auto simp: Let_def update_conv')

lemma health_loop_status:
  "n \<in> fst ` set xs \<Longrightarrow>
   \<exists>e. map_of (health_models (health_loop mm xs h)) n = Some e \<and>
       h_success_rate e = get_model_success_rate mm n \<and>
       h_status e = (if get_model_success_rate mm n > 0.8 then healthy
                     else if get_model_success_rate mm n > 0.5 then degraded else unhealthy)"
proof (induction mm xs h rule: health_loop.induct)
  case (1 mm h)
  then show ?case by simp
next
  case (2 mm model_name metrics rest h)
  show ?case
  proof (cases "n \<in> fst ` set rest")
    case True
    with 2 show ?thesis by (simp add: Let_def)
  next
    case False
    with 2(2) have n: "n = model_name" by auto
    show ?thesis
      using False by (simp add: Let_def n health_loop_other update_conv')
  qed
qed

lemma health_loop_keys:
  "dom (map_of (health_models (health_loop mm xs h))) = fst ` set xs \<union> dom (map_of (health_models h))"
  by (induction mm xs h rule: health_loop.induct) (auto simp: Let_def update_conv')


text \<open>
  Claim C8.  A model with no recorded attempt (no entry in the table, or an entry whose
  \<open>total_attempts\<close> is 0) has success rate exactly 1; a model whose entry records 3 attempts
  of which 1 succeeded has success rate 1/3.  Such an entry is what three calls of
  \<open>update_model_metrics\<close> for a so far untracked model leave behind when exactly one of them
  reports success, whatever their order, durations and time stamps.
\<close>

theorem success_rate_default_and_third:
  "(map_of mm n = None \<longrightarrow> get_model_success_rate mm n = 1) \<and>
   (\<forall>m. map_of mm n = Some m \<and> total_attempts m = 0 \<longrightarrow> get_model_success_rate mm n = 1) \<and>
   (\<forall>m. map_of mm n = Some m \<and> total_attempts m = 3 \<and> successful_attempts m = 1 \<longrightarrow>
        get_model_success_rate mm n = 1 / 3) \<and>
   (\<forall>s1 s2 s3 d1 d2 d3 t1 t2 t3.
      map_of mm n = None \<and> length (filter id [s1, s2, s3]) = 1 \<longrightarrow>
      get_model_success_rate
        (update_model_metrics n s3 d3 t3
          (update_model_metrics n s2 d2 t2 (update_model_metrics n s1 d1 t1 mm))) n = 1 / 3)"
proof -
  have three: "get_model_success_rate
        (update_model_metrics n s3 d3 t3
          (update_model_metrics n s2 d2 t2 (update_model_metrics n s1 d1 t1 mm))) n = 1 / 3"
    if "map_of mm n = None" "length (filter id [s1, s2, s3]) = 1"
    for s1 s2 s3 d1 d2 d3 t1 t2 t3
    using that
    by (cases s1; cases s2; cases s3)
       (simp_all add: get_model_success_rate_def update_fresh_lookup)
  show ?thesis
    using three by (auto simp: get_model_success_rate_def)
qed

theorem success_rate_default_and_third_witness:
  "get_model_success_rate [] ''ollama/llama3'' = 1 \<and>
   get_model_success_rate
     [(''ollama/llama3'', \<lparr>total_attempts = 0, successful_attempts = 0,
                            total_duration = 0, last_used = 0\<rparr>)] ''ollama/llama3'' = 1 \<and>
   get_model_success_rate
     [(''ollama/llama3'', \<lparr>total_attempts = 3, successful_attempts = 1,
                            total_duration = 12, last_used = 40\<rparr>)] ''ollama/llama3'' = 1 / 3 \<and>
   get_model_success_rate
     (update_model_metrics ''ollama/llama3'' False 3 30
       (update_model_metrics ''ollama/llama3'' True 2 20
         (update_model_metrics ''ollama/llama3'' False 1 10 []))) ''ollama/llama3'' = 1 / 3"
  using success_rate_default_and_third [of "[]" "''ollama/llama3''"]
    success_rate_default_and_third
      [of "[(''ollama/llama3'', \<lparr>total_attempts = 0, successful_attempts = 0,
                            total_duration = 0, last_used = 0\<rparr>)]" "''ollama/llama3''"]
    success_rate_default_and_third
      [of "[(''ollama/llama3'', \<lparr>total_attempts = 3, successful_attempts = 1,
                            total_duration = 12, last_used = 40\<rparr>)]" "''ollama/llama3''"]
  by simp

text \<open>
  Claim C9.  In the snapshot \<open>get_system_health\<close> builds, every tracked model has an entry,
  and only tracked models have one; the entry's status is \<open>healthy\<close> iff the model's success
  rate is above 0.8, \<open>degraded\<close> iff it is at most 0.8 and above 0.5, and \<open>unhealthy\<close> iff
  it is at most 0.5.  The aggregate \<open>overall_health\<close> is \<open>degraded\<close> iff some tracked model's
  status is not \<open>healthy\<close>, and \<open>healthy\<close> iff all are \<open>healthy\<close>; it is never \<open>unhealthy\<close>.
\<close>

theorem system_health_classification:
  "(\<forall>n \<in> fst ` set mm.
      \<exists>e. map_of (health_models (get_system_health mm now)) n = Some e \<and>
          (h_status e = healthy \<longleftrightarrow> get_model_success_rate mm n > 0.8) \<and>
          (h_status e = degraded \<longleftrightarrow>
             get_model_success_rate mm n \<le> 0.8 \<and> get_model_success_rate mm n > 0.5) \<and>
          (h_status e = unhealthy \<longleftrightarrow> get_model_success_rate mm n \<le> 0.5)) \<and>
   dom (map_of (health_models (get_system_health mm now))) = fst ` set mm \<and>
   (overall_health (get_system_health mm now) = degraded \<longleftrightarrow>
      (\<exists>n e. map_of (health_models (get_system_health mm now)) n = Some e \<and>
             h_status e \<noteq> healthy)) \<and>
   (overall_health (get_system_health mm now) = healthy \<longleftrightarrow>
      (\<forall>n e. map_of (health_models (get_system_health mm now)) n = Some e \<longrightarrow>
             h_status e = healthy)) \<and>
   overall_health (get_system_health mm now) \<noteq> unhealthy"
proof -
  let ?H = "get_system_health mm now"
  have keys: "dom (map_of (health_models ?H)) = fst ` set mm"
    by (simp add: get_system_health_def health_loop_keys)
  have entry: "\<exists>e. map_of (health_models ?H) n = Some e \<and>
       h_status e = (if get_model_success_rate mm n > 0.8 then healthy
                     else if get_model_success_rate mm n > 0.5 then degraded else unhealthy)"
    if "n \<in> fst ` set mm" for n
    using health_loop_status [OF that] unfolding get_system_health_def by blast
  have overall: "overall_health ?H =
     (if \<exists>n \<in> fst ` set mm. \<not> get_model_success_rate mm n > 0.8 then degraded else healthy)"
    by (simp add: get_system_health_def health_loop_overall)
  have nonhealthy: "(\<exists>n e. map_of (health_models ?H) n = Some e \<and> h_status e \<noteq> healthy) \<longleftrightarrow>
     (\<exists>n \<in> fst ` set mm. \<not> get_model_success_rate mm n > 0.8)"
  proof
    assume "\<exists>n e. map_of (health_models ?H) n = Some e \<and> h_status e \<noteq> healthy"
    then obtain n e where ne: "map_of (health_models ?H) n = Some e" "h_status e \<noteq> healthy"
      by blast
    from ne(1) keys have mem: "n \<in> fst ` set mm" by blast
    from entry [OF mem] ne have "\<not> get_model_success_rate mm n > 0.8"
      by (auto split: if_splits)
    with mem show "\<exists>n \<in> fst ` set mm. \<not> get_model_success_rate mm n > 0.8"
      by blast
  next
    assume "\<exists>n \<in> fst ` set mm. \<not> get_model_success_rate mm n > 0.8"
    then obtain n where n: "n \<in> fst ` set mm" "\<not> get_model_success_rate mm n > 0.8"
      by blast
    from entry [OF n(1)] n(2)
    obtain e where "map_of (health_models ?H) n = Some e" "h_status e \<noteq> healthy"
      by (auto split: if_splits)
    then show "\<exists>n e. map_of (health_models ?H) n = Some e \<and> h_status e \<noteq> healthy"
      by blast
  qed
  have c1: "\<forall>n \<in> fst ` set mm.
      \<exists>e. map_of (health_models ?H) n = Some e \<and>
          (h_status e = healthy \<longleftrightarrow> get_model_success_rate mm n > 0.8) \<and>
          (h_status e = degraded \<longleftrightarrow>
             get_model_success_rate mm n \<le> 0.8 \<and> get_model_success_rate mm n > 0.5) \<and>
          (h_status e = unhealthy \<longleftrightarrow> get_model_success_rate mm n \<le> 0.5)"
  proof
    fix n assume "n \<in> fst ` set mm"
    from entry [OF this] obtain e where e: "map_of (health_models ?H) n = Some e"
      "h_status e = (if get_model_success_rate mm n > 0.8 then healthy
                     else if get_model_success_rate mm n > 0.5 then degraded else unhealthy)"
      by blast
    show "\<exists>e. map_of (health_models ?H) n = Some e \<and>
          (h_status e = healthy \<longleftrightarrow> get_model_success_rate mm n > 0.8) \<and>
          (h_status e = degraded \<longleftrightarrow>
             get_model_success_rate mm n \<le> 0.8 \<and> get_model_success_rate mm n > 0.5) \<and>
          (h_status e = unhealthy \<longleftrightarrow> get_model_success_rate mm n \<le> 0.5)"
      using e by (intro exI [of _ e]) auto
  qed
  have c3: "overall_health ?H = degraded \<longleftrightarrow>
      (\<exists>n e. map_of (health_models ?H) n = Some e \<and> h_status e \<noteq> healthy)"
    unfolding nonhealthy overall by simp
  have c4: "overall_health ?H = healthy \<longleftrightarrow>
      (\<forall>n e. map_of (health_models ?H) n = Some e \<longrightarrow> h_status e = healthy)"
    using nonhealthy overall by auto
  have c5: "overall_health ?H \<noteq> unhealthy"
    by (simp add: overall)
  from c1 keys c3 c4 c5 show ?thesis by blast
qed

theorem system_health_classification_witness:
  "''ollama/mistral'' \<in> fst ` set demo_metrics \<and>
   get_model_success_rate demo_metrics ''ollama/mistral'' = 0.8 \<and>
   map_option h_status
     (map_of (health_models (get_system_health demo_metrics 7)) ''ollama/mistral'') =
     Some degraded \<and>
   get_model_success_rate demo_metrics ''ollama/gemma'' = 0.2 \<and>
   map_option h_status
     (map_of (health_models (get_system_health demo_metrics 7)) ''ollama/gemma'') =
     Some unhealthy \<and>
   overall_health (get_system_health demo_metrics 7) = degraded"
proof -
  have mem: "''ollama/mistral'' \<in> fst ` set demo_metrics"
    "''ollama/gemma'' \<in> fst ` set demo_metrics"
    by (simp_all add: demo_metrics_def)
  have r1: "get_model_success_rate demo_metrics ''ollama/mistral'' = 0.8"
    and r2: "get_model_success_rate demo_metrics ''ollama/gemma'' = 0.2"
    by (simp_all add: demo_metrics_def get_model_success_rate_def)
  note main = system_health_classification [of demo_metrics 7]
  from main mem(1) obtain e1 where
    e1: "map_of (health_models (get_system_health demo_metrics 7)) ''ollama/mistral'' = Some e1"
      "h_status e1 = degraded \<longleftrightarrow>
         get_model_success_rate demo_metrics ''ollama/mistral'' \<le> 0.8 \<and>
         get_model_success_rate demo_metrics ''ollama/mistral'' > 0.5"
    by blast
  from main mem(2) obtain e2 where
    e2: "map_of (health_models (get_system_health demo_metrics 7)) ''ollama/gemma'' = Some e2"
      "h_status e2 = unhealthy \<longleftrightarrow>
         get_model_success_rate demo_metrics ''ollama/gemma'' \<le> 0.5"
    by blast
  have s1: "h_status e1 = degraded" using e1(2) r1 by simp
  have s2: "h_status e2 = unhealthy" using e2(2) r2 by simp
  have "\<exists>n e. map_of (health_models (get_system_health demo_metrics 7)) n = Some e \<and>
             h_status e \<noteq> healthy"
    using e1(1) s1 by (intro exI [of _ "''ollama/mistral''"] exI [of _ e1]) simp
  with main have "overall_health (get_system_health demo_metrics 7) = degraded"
    by blast
  with mem(1) r1 r2 e1(1) e2(1) s1 s2 show ?thesis by simp
qed
section \<open>Properties of the structured router\<close>

lemma min_by_mem: "min_by f b xs \<in> set (b # xs)"
  by (induction xs arbitrary: b) auto

lemma min_by_least: "y \<in> set (b # xs) \<Longrightarrow> f (min_by f b xs) \<le> f y"
proof (induction xs arbitrary: b y)
  case Nil then show ?case by simp
next
  case (Cons x xs)
  have le: "f (min_by f c xs) \<le> f c" for c
    using Cons.IH [of c c] by simp
  show ?case
  proof (cases "y \<in> set xs")
    case True
    then show ?thesis using Cons.IH [of y "if f x < f b then x else b"] by simp
  next
    case False
    with Cons.prems have "y = b \<or> y = x" by auto
    then show ?thesis
      using le [of "if f x < f b then x else b"] by (auto split: if_splits)
  qed
qed

lemma find_sorted_least:
  assumes "find P (sort_key f xs) = Some x"
  shows "x \<in> set xs \<and> P x \<and> (\<forall>y \<in> set xs. P y \<longrightarrow> f x \<le> f y)"
proof -
  from assms obtain i where i: "i < length (sort_key f xs)" "P (sort_key f xs ! i)"
    "x = sort_key f xs ! i" "\<forall>j<i. \<not> P (sort_key f xs ! j)"
    unfolding find_Some_iff by blast
  have srt: "sorted (map f (sort_key f xs))" by (rule sorted_sort_key)
  have mem: "x \<in> set xs" using i(1,3) by (metis nth_mem set_sort)
  have "f x \<le> f y" if y: "y \<in> set xs" "P y" for y
  proof -
    from y(1) have "y \<in> set (sort_key f xs)" by simp
    then obtain k where k: "k < length (sort_key f xs)" "sort_key f xs ! k = y"
      using in_set_conv_nth [of y "sort_key f xs"] by blast
    with i(4) y(2) have "i \<le> k" by (metis not_le_imp_less)
    with srt k(1) have "map f (sort_key f xs) ! i \<le> map f (sort_key f xs) ! k"
      by (simp add: sorted_iff_nth_mono del: length_sort)
    with i k show ?thesis by simp
  qed
  with mem i(2,3) show ?thesis by blast
qed



text \<open>
  What \<open>route_task\<close> selects once the resource probe has returned a reading
  \<open>available_memory\<close>, for a catalogue with at least one suitable model (a descriptor whose
  task types contain the requested type and whose availability flag is set): it returns a
  suitable model and raises nothing.  If some suitable model needs at most
  \<open>available_memory\<close>, the returned model does so too, and it comes first in the ascending
  order of (priority, memory requirement) among the suitable models that fit.  If no
  suitable model fits, the returned model has the least memory requirement of all suitable
  models.
\<close>

lemma route_task_selection:
  assumes suitable: "suitable_models =
      filter (\<lambda>model. task_type \<in> set (task_types model) \<and> is_available model)
        (map snd available_models)"
    and nonempty: "suitable_models \<noteq> []"
    and probe: "get_available_memory env = Inr available_memory"
  shows "\<exists>model \<in> set suitable_models.
           route_task available_models env task_type = Inr (name model, to_dict model) \<and>
           (if \<exists>m \<in> set suitable_models. memory_requirement m \<le> available_memory
            then memory_requirement model \<le> available_memory \<and>
                 (\<forall>m \<in> set suitable_models. memory_requirement m \<le> available_memory \<longrightarrow>
                    priority model < priority m \<or>
                    (priority model = priority m \<and>
                     memory_requirement model \<le> memory_requirement m))
            else \<forall>m \<in> set suitable_models.
                   memory_requirement model \<le> memory_requirement m)"
proof -
  let ?key = "\<lambda>m. (priority m, memory_requirement m)"
  let ?fits = "\<lambda>model. memory_requirement model \<le> available_memory"
  let ?sorted = "sort_key ?key suitable_models"
  have sorted_ne: "?sorted \<noteq> []"
    using nonempty by (metis length_0_conv length_sort)
  have hd_tl: "hd ?sorted # tl ?sorted = ?sorted"
    using sorted_ne by simp
  show ?thesis
  proof (cases "find ?fits ?sorted")
    case None
    let ?m = "min_by memory_requirement (hd ?sorted) (tl ?sorted)"
    have nofit: "\<forall>y \<in> set suitable_models. \<not> ?fits y"
      using None by (auto simp: find_None_iff)
    have "?m \<in> set (hd ?sorted # tl ?sorted)" by (rule min_by_mem)
    then have mem: "?m \<in> set suitable_models" by (simp only: hd_tl set_sort)
    have least: "memory_requirement ?m \<le> memory_requirement y" if "y \<in> set suitable_models" for y
    proof -
      from that have "y \<in> set (hd ?sorted # tl ?sorted)" by (simp only: hd_tl set_sort)
      then show ?thesis by (rule min_by_least)
    qed
    have res: "route_task available_models env task_type = Inr (name ?m, to_dict ?m)"
      using nonempty None probe
      by (simp add: route_task_def Let_def flip: suitable)
    show ?thesis
      using mem res nofit least by (intro bexI [of _ ?m]) auto
  next
    case (Some model)
    from find_sorted_least [OF Some]
    have mem: "model \<in> set suitable_models" and fit: "?fits model"
      and least: "\<forall>y \<in> set suitable_models. ?fits y \<longrightarrow> ?key model \<le> ?key y"
      by blast+
    have res: "route_task available_models env task_type = Inr (name model, to_dict model)"
      using nonempty Some probe
      by (simp add: route_task_def Let_def flip: suitable)
    have key: "priority model < priority m \<or>
        (priority model = priority m \<and> memory_requirement model \<le> memory_requirement m)"
      if "m \<in> set suitable_models" "?fits m" for m
      using least that by (auto simp: less_eq_prod_def)
    show ?thesis
      using mem res fit key by (intro bexI [of _ model]) auto
  qed
qed

text \<open>
  Claim C1.  With a non-empty set of suitable models \<open>route_task\<close> is to return the first
  candidate, in ascending (priority, memory requirement) order, that fits the probed
  memory, or the suitable candidate of least memory requirement, and never to fail for
  lack of memory.  It does so whenever the probe returns a reading (\<open>route_task_selection\<close>).
  The probe itself fails where its comment promises "Default to 6GB if can't determine":
  when \<open>torch\<close> cannot be imported and the \<open>nvidia-smi\<close> command cannot be started,
  \<open>subprocess.run\<close> raises \<open>FileNotFoundError\<close>, which the clause
  \<open>except (subprocess.CalledProcessError, ValueError)\<close> does not catch.  On the built-in
  catalogue, which has four models for text generation, \<open>route_task\<close> then raises and
  returns no model, while on the sibling path, where \<open>nvidia-smi\<close> exits with an error and
  the default of 6144 MB applies, it returns \<open>llama3:8b\<close>.
\<close>

theorem route_task_probe_failure:
  "length (filter (\<lambda>model. TEXT_GENERATION \<in> set (task_types model) \<and> is_available model)
     (map snd initialize_models)) = 4 \<and>
   route_task initialize_models demo_env_no_probe TEXT_GENERATION =
     Inl (PyException FileNotFoundError
            (''[Errno 2] No such file or directory: '' @
             [CHR 0x27] @ ''nvidia-smi'' @ [CHR 0x27])) \<and>
   get_available_memory (demo_env_no_probe\<lparr>nvidia_smi := Smi_called_process_error\<rparr>) =
     Inr 6144 \<and>
   route_task initialize_models
     (demo_env_no_probe\<lparr>nvidia_smi := Smi_called_process_error\<rparr>) TEXT_GENERATION =
     Inr (''llama3:8b'',
          \<lparr>dict_name = ''llama3:8b'',
           dict_task_types = [''TEXT_GENERATION'', ''GENERAL_QA'', ''DOCUMENTATION''],
           dict_priority = 2, dict_memory_requirement_mb = 4700, dict_is_available = True\<rparr>)"
  by code_simp

text \<open>
  Claim C7.  When no model of the catalogue both supports the requested task type and is
  available, \<open>route_task\<close> raises: its result is the exception (a \<open>ValueError\<close> whose text
  is "No suitable models available for task type: ..."), whatever the probe would report,
  and so no model is returned.
\<close>

theorem route_task_no_suitable_model:
  assumes "filter (\<lambda>model. task_type \<in> set (task_types model) \<and> is_available model)
             (map snd available_models) = []"
  shows "route_task available_models env task_type =
           Inl (PyException ValueError
                  (''No suitable models available for task type: TaskType.'' @
                   TaskType_name task_type))"
  using assms by (simp add: route_task_def)


lemma route_task_selection_example:
  "get_available_memory demo_env = Inr 4500 \<and>
   route_task initialize_models demo_env TEXT_GENERATION =
     Inr (''mistral:latest'',
          \<lparr>dict_name = ''mistral:latest'',
           dict_task_types = [''TEXT_GENERATION'', ''GENERAL_QA''],
           dict_priority = 3, dict_memory_requirement_mb = 4400, dict_is_available = True\<rparr>) \<and>
   get_available_memory (demo_env\<lparr>nvidia_smi := Smi_prints 1000\<rparr>) = Inr 1000 \<and>
   route_task initialize_models (demo_env\<lparr>nvidia_smi := Smi_prints 1000\<rparr>) TEXT_GENERATION =
     Inr (''gemma:2b'',
          \<lparr>dict_name = ''gemma:2b'',
           dict_task_types = [''TEXT_GENERATION'', ''GENERAL_QA''],
           dict_priority = 6, dict_memory_requirement_mb = 1700, dict_is_available = True\<rparr>)"
proof -
  define suitable where "suitable =
      filter (\<lambda>model. TEXT_GENERATION \<in> set (task_types model) \<and> is_available model)
        (map snd initialize_models)"
  have s: "suitable =
     [\<lparr>name = ''llama3:8b'', task_types = [TEXT_GENERATION, GENERAL_QA, DOCUMENTATION],
       priority = 2, memory_requirement = 4700, is_available = True\<rparr>,
      \<lparr>name = ''mistral:latest'', task_types = [TEXT_GENERATION, GENERAL_QA],
       priority = 3, memory_requirement = 4400, is_available = True\<rparr>,
      \<lparr>name = ''zephyr:7b-beta'', task_types = [TEXT_GENERATION, GENERAL_QA],
       priority = 5, memory_requirement = 4100, is_available = True\<rparr>,
      \<lparr>name = ''gemma:2b'', task_types = [TEXT_GENERATION, GENERAL_QA],
       priority = 6, memory_requirement = 1700, is_available = True\<rparr>]"
    by (simp add: suitable_def initialize_models_def)
  have ne: "suitable \<noteq> []" by (simp add: s)
  have p1: "get_available_memory demo_env = Inr 4500"
    by (simp add: get_available_memory_def demo_env_def)
  have p2: "get_available_memory (demo_env\<lparr>nvidia_smi := Smi_prints 1000\<rparr>) = Inr 1000"
    by (simp add: get_available_memory_def demo_env_def)
  have r1: "route_task initialize_models demo_env TEXT_GENERATION =
     Inr (''mistral:latest'',
          \<lparr>dict_name = ''mistral:latest'',
           dict_task_types = [''TEXT_GENERATION'', ''GENERAL_QA''],
           dict_priority = 3, dict_memory_requirement_mb = 4400, dict_is_available = True\<rparr>)"
    using route_task_selection [OF suitable_def ne p1]
    by (auto simp: s to_dict_def)
  have r2: "route_task initialize_models (demo_env\<lparr>nvidia_smi := Smi_prints 1000\<rparr>)
       TEXT_GENERATION =
     Inr (''gemma:2b'',
          \<lparr>dict_name = ''gemma:2b'',
           dict_task_types = [''TEXT_GENERATION'', ''GENERAL_QA''],
           dict_priority = 6, dict_memory_requirement_mb = 1700, dict_is_available = True\<rparr>)"
    using route_task_selection [OF suitable_def ne p2]
    by (auto simp: s to_dict_def)
  from p1 r1 p2 r2 show ?thesis by simp
qed

theorem route_task_no_suitable_model_witness:
  "filter (\<lambda>model. CODE_ANALYSIS \<in> set (task_types model) \<and> is_available model)
     (map snd (update_model_availability [''gemma:2b''] initialize_models)) = [] \<and>
   route_task (update_model_availability [''gemma:2b''] initialize_models) demo_env
     CODE_ANALYSIS =
     Inl (PyException ValueError
            ''No suitable models available for task type: TaskType.CODE_ANALYSIS'')"
proof -
  have empty: "filter (\<lambda>model. CODE_ANALYSIS \<in> set (task_types model) \<and> is_available model)
     (map snd (update_model_availability [''gemma:2b''] initialize_models)) = []"
    by (simp add: update_model_availability_def initialize_models_def)
  from route_task_no_suitable_model [OF empty, of demo_env] empty
  show ?thesis by simp
qed
section \<open>Properties of the keyword router\<close>

lemma is_prefix_iff: "is_prefix n h \<longleftrightarrow> (\<exists>after. h = n @ after)"
  by (induction n h rule: is_prefix.induct) auto

lemma str_contains_iff: "str_contains n h \<longleftrightarrow> (\<exists>before after. h = before @ n @ after)"
proof (induction h)
  case Nil
  then show ?case by auto
next
  case (Cons c cs)
  show ?case
  proof
    assume "str_contains n (c # cs)"
    then consider "is_prefix n (c # cs)" | "str_contains n cs" by auto
    then show "\<exists>before after. c # cs = before @ n @ after"
    proof cases
      case 1
      then obtain after where "c # cs = n @ after" unfolding is_prefix_iff by blast
      then have "c # cs = [] @ n @ after" by simp
      then show ?thesis by blast
    next
      case 2
      with Cons.IH obtain before after where "cs = before @ n @ after" by blast
      then have "c # cs = (c # before) @ n @ after" by simp
      then show ?thesis by blast
    qed
  next
    assume "\<exists>before after. c # cs = before @ n @ after"
    then obtain before after where eq: "c # cs = before @ n @ after" by blast
    show "str_contains n (c # cs)"
    proof (cases before)
      case Nil
      with eq have "is_prefix n (c # cs)" unfolding is_prefix_iff by auto
      then show ?thesis by simp
    next
      case (Cons b bs)
      with eq have "cs = bs @ n @ after" by simp
      with Cons.IH have "str_contains n cs" by blast
      then show ?thesis by simp
    qed
  qed
qed

lemma keyword_loop_iff:
  "keyword_loop p kws \<longleftrightarrow> (\<exists>keyword \<in> set kws. str_contains (lower keyword) p)"
  by (induction p kws rule: keyword_loop.induct) auto

lemma keyword_loop_matches:
  "keyword_loop (lower prompt)
     (case routing_keywords tc of None \<Rightarrow> [] | Some kws \<Rightarrow> kws) \<longleftrightarrow> task_matches prompt tc"
  by (simp add: keyword_loop_iff task_matches_def configured_keywords_def str_contains_iff)

lemma task_loop_find:
  "task_loop (lower prompt) ts = map_option snd (find (\<lambda>t. task_matches prompt (snd t)) ts)"
  by (induction ts) (auto simp: keyword_loop_matches)


text \<open>
  Claim C5.  Keyword routing is decided by declaration order alone.  Whenever the task at
  position \<open>i\<close> of the configuration matches the prompt, the router returns the configuration
  of the first matching task: the task at some position \<open>k \<le> i\<close> that matches while no task
  before it does.  So of two matching tasks the one declared earlier is returned, whatever
  the keywords' lengths or the places where they occur in the prompt.
\<close>

theorem keyword_routing_first_match:
  assumes "i < length (tasks config)"
    and "task_matches prompt (snd (tasks config ! i))"
  shows "\<exists>k\<le>i. task_matches prompt (snd (tasks config ! k)) \<and>
           (\<forall>l<k. \<not> task_matches prompt (snd (tasks config ! l))) \<and>
           route_task_prompt config prompt = Inr (snd (tasks config ! k))"
proof -
  let ?P = "\<lambda>t. task_matches prompt (snd t)"
  from assms have "\<exists>t \<in> set (tasks config). ?P t"
    using nth_mem by blast
  then obtain t where t: "find ?P (tasks config) = Some t"
    by (cases "find ?P (tasks config)") (auto simp: find_None_iff)
  then obtain k where k: "k < length (tasks config)" "?P (tasks config ! k)"
    "t = tasks config ! k" "\<forall>l<k. \<not> ?P (tasks config ! l)"
    unfolding find_Some_iff by blast
  from k(4) assms(2) have "k \<le> i" by (meson not_le_imp_less)
  moreover have "route_task_prompt config prompt = Inr (snd (tasks config ! k))"
    by (simp add: route_task_prompt_def task_loop_find t k(3))
  ultimately show ?thesis using k(2,4) by blast
qed


theorem keyword_routing_first_match_witness:
  "1 < length (tasks demo_config) \<and>
   task_matches ''Please ANALYZE this python code'' (snd (tasks demo_config ! 1)) \<and>
   task_matches ''Please ANALYZE this python code'' (snd (tasks demo_config ! 0)) \<and>
   route_task_prompt demo_config ''Please ANALYZE this python code'' =
     Inr \<lparr>routing_keywords = Some [''code'', ''Analyze''], primary_model = None,
          fallback_models = None, models = Some [''ollama/codellama'']\<rparr>"
proof -
  let ?p = "''Please ANALYZE this python code''"
  have len: "1 < length (tasks demo_config)" by (simp add: demo_config_def)
  have "keyword_loop (lower ?p)
     (case routing_keywords (snd (tasks demo_config ! 0)) of None \<Rightarrow> [] | Some kws \<Rightarrow> kws)"
    by code_simp
  then have m0: "task_matches ?p (snd (tasks demo_config ! 0))"
    by (simp only: keyword_loop_matches)
  have "keyword_loop (lower ?p)
     (case routing_keywords (snd (tasks demo_config ! 1)) of None \<Rightarrow> [] | Some kws \<Rightarrow> kws)"
    by code_simp
  then have m1: "task_matches ?p (snd (tasks demo_config ! 1))"
    by (simp only: keyword_loop_matches)
  from keyword_routing_first_match [OF len m1] obtain k where
    k: "\<forall>l<k. \<not> task_matches ?p (snd (tasks demo_config ! l))"
      "route_task_prompt demo_config ?p = Inr (snd (tasks demo_config ! k))"
    by blast
  from k(1) m0 have "k = 0" by (cases k) auto
  with k(2) have "route_task_prompt demo_config ?p = Inr (snd (tasks demo_config ! 0))"
    by simp
  then have "route_task_prompt demo_config ?p =
     Inr \<lparr>routing_keywords = Some [''code'', ''Analyze''], primary_model = None,
          fallback_models = None, models = Some [''ollama/codellama'']\<rparr>"
    by (simp add: demo_config_def)
  with len m1 m0 show ?thesis by simp
qed
section \<open>Properties of the fallback executor\<close>

lemma update_other_lookup:
  "x \<noteq> n \<Longrightarrow> map_of (update_model_metrics n s d now mm) x = map_of mm x"
  by (simp add: update_model_metrics_def Let_def update_conv')

lemma total_of_update:
  "total_of (update_model_metrics n s d now mm) x = total_of mm x + (if x = n then 1 else 0)"
  by (cases "map_of mm n"; cases "x = n")
     (simp_all add: total_of_def update_fresh_lookup update_other_lookup Let_def)

lemma success_of_update:
  "success_of (update_model_metrics n s d now mm) x =
     success_of mm x + (if x = n \<and> s then 1 else 0)"
  by (cases "map_of mm n"; cases "x = n")
     (simp_all add: success_of_def update_fresh_lookup update_other_lookup Let_def)

lemma try_model_effect:
  assumes "\<not> attempt_success a" and "attempt_model_name a = n"
  shows "case try_model m tf tt chain idx n st retry a le w of
           Continue a' le' w' \<Rightarrow>
             is_failure (tf (length (calls w)) n) \<and>
             \<not> attempt_success a' \<and> attempt_model_name a' = n \<and>
             calls w' = calls w @ [n] \<and> http_requests w' = http_requests w \<and>
             (\<exists>ev. perf_log w' = perf_log w @ [ev] \<and> attempt_event_of ev = Some (n, False)) \<and>
             (\<forall>x. total_of (metrics w') x = total_of (metrics w) x + (if x = n then 1 else 0)) \<and>
             (\<forall>x. success_of (metrics w') x = success_of (metrics w) x)
         | Return r a' w' \<Rightarrow>
             (\<exists>d. tf (length (calls w)) n = Returns r d) \<and>
             attempt_success a' \<and> attempt_model_name a' = n \<and>
             attempt_response a' = Some r \<and> attempt_retry_count a' = retry \<and>
             calls w' = calls w @ [n] \<and> http_requests w' = http_requests w \<and>
             (\<exists>ev. perf_log w' = perf_log w @ [ev] \<and> attempt_event_of ev = Some (n, True)) \<and>
             (\<forall>x. total_of (metrics w') x = total_of (metrics w) x + (if x = n then 2 else 0)) \<and>
             (\<forall>x. success_of (metrics w') x = success_of (metrics w) x + (if x = n then 2 else 0))"
  using assms
  by (cases "tf (length (calls w)) n")
     (simp_all add: try_model_def finally_clause_def Let_def is_failure_def
        record_metrics_def log_performance_event_def total_of_update success_of_update)


lemma retry_loop_all_fail:
  assumes "\<forall>k. is_failure (tf k n)"
    and "\<not> attempt_success a" and "attempt_model_name a = n"
  shows "\<exists>a' le' w'.
           retry_loop m tf tt chain idx n st retries a le w = Continue a' le' w' \<and>
           \<not> attempt_success a' \<and> attempt_model_name a' = n \<and>
           calls w' = calls w @ replicate (length retries) n \<and>
           (\<exists>evs. perf_log w' = perf_log w @ evs \<and>
                  map attempt_event_of evs = replicate (length retries) (Some (n, False)))"
  using assms(2,3)
proof (induction retries arbitrary: a le w)
  case Nil
  then show ?case by simp
next
  case (Cons retry retries)
  note eff = try_model_effect [OF Cons.prems, where m=m and tf=tf and tt=tt and chain=chain
      and idx=idx and st=st and retry=retry and le=le and w=w]
  show ?case
  proof (cases "try_model m tf tt chain idx n st retry a le w")
    case (Return r a1 w1)
    with eff obtain d where "tf (length (calls w)) n = Returns r d" by auto
    moreover from assms(1) have "is_failure (tf (length (calls w)) n)" by blast
    ultimately have False by (simp add: is_failure_def)
    then show ?thesis ..
  next
    case (Continue a1 le1 w1)
    with eff have a1: "\<not> attempt_success a1" "attempt_model_name a1 = n"
      and c1: "calls w1 = calls w @ [n]"
      and l1: "\<exists>ev. perf_log w1 = perf_log w @ [ev] \<and> attempt_event_of ev = Some (n, False)"
      by simp_all
    from l1 obtain ev where ev: "perf_log w1 = perf_log w @ [ev]"
      "attempt_event_of ev = Some (n, False)" by blast
    from Cons.IH [OF a1, where le=le1 and w=w1] obtain a' le' w' evs where
      r: "retry_loop m tf tt chain idx n st retries a1 le1 w1 = Continue a' le' w'"
        "\<not> attempt_success a'" "attempt_model_name a' = n"
        "calls w' = calls w1 @ replicate (length retries) n"
        "perf_log w' = perf_log w1 @ evs"
        "map attempt_event_of evs = replicate (length retries) (Some (n, False))"
      by blast
    have "perf_log w' = perf_log w @ (ev # evs)"
      "map attempt_event_of (ev # evs) = replicate (length (retry # retries)) (Some (n, False))"
      using r(5,6) ev by simp_all
    then have "\<exists>evs. perf_log w' = perf_log w @ evs \<and>
        map attempt_event_of evs = replicate (length (retry # retries)) (Some (n, False))"
      by blast
    moreover have "calls w' = calls w @ replicate (length (retry # retries)) n"
      using r(4) c1 by simp
    ultimately show ?thesis
      using Continue r(1,2,3) by simp
  qed
qed

lemma retry_loop_counters:
  assumes "\<not> attempt_success a" and "attempt_model_name a = n"
  shows "case retry_loop m tf tt chain idx n st retries a le w of
           Continue a' le' w' \<Rightarrow>
             \<not> attempt_success a' \<and> attempt_model_name a' = n \<and>
             (\<forall>x. total_of (metrics w') x - int (count_list (calls w') x) =
                  total_of (metrics w) x - int (count_list (calls w) x)) \<and>
             (\<forall>x. success_of (metrics w') x = success_of (metrics w) x)
         | Return r a' w' \<Rightarrow>
             attempt_success a' \<and> attempt_model_name a' = n \<and>
             (\<forall>x. total_of (metrics w') x - int (count_list (calls w') x) =
                  total_of (metrics w) x - int (count_list (calls w) x) +
                  (if x = n then 1 else 0)) \<and>
             (\<forall>x. success_of (metrics w') x =
                  success_of (metrics w) x + (if x = n then 2 else 0))"
  using assms
proof (induction retries arbitrary: a le w)
  case Nil
  then show ?case by simp
next
  case (Cons retry retries)
  note eff = try_model_effect [OF Cons.prems, where m=m and tf=tf and tt=tt and chain=chain
      and idx=idx and st=st and retry=retry and le=le and w=w]
  show ?case
  proof (cases "try_model m tf tt chain idx n st retry a le w")
    case (Return r a1 w1)
    with eff show ?thesis by simp
  next
    case (Continue a1 le1 w1)
    with eff have a1: "\<not> attempt_success a1" "attempt_model_name a1 = n"
      and c1: "calls w1 = calls w @ [n]"
      and t1: "\<forall>x. total_of (metrics w1) x = total_of (metrics w) x + (if x = n then 1 else 0)"
      and s1: "\<forall>x. success_of (metrics w1) x = success_of (metrics w) x"
      by simp_all
    have d1: "total_of (metrics w1) x - int (count_list (calls w1) x) =
        total_of (metrics w) x - int (count_list (calls w) x)" for x
      using c1 t1 by simp
    from Cons.IH [OF a1, where le=le1 and w=w1] show ?thesis
      using Continue d1 s1 by (simp split: retry_flow.splits)
  qed
qed


lemma new_attempt_simps [simp]:
  "\<not> attempt_success (new_attempt n)" "attempt_model_name (new_attempt n) = n"
  by (simp_all add: new_attempt_def)

lemma chain_loop_all_fail:
  assumes "\<forall>k. \<forall>n \<in> snd ` set es. is_failure (tf k n)"
  shows "\<exists>le' lmu' ds evs w'.
           chain_loop m tf tt chain es le lmu fec w = Exhausted le' lmu' (fec @ ds) w' \<and>
           map ad_model_name ds = map snd es \<and> (\<forall>d \<in> set ds. \<not> ad_success d) \<and>
           perf_log w' = perf_log w @ evs \<and>
           (\<forall>ev \<in> set evs. \<exists>n. attempt_event_of ev = Some (n, False))"
  using assms
proof (induction es arbitrary: le lmu fec w)
  case Nil
  then show ?case by simp
next
  case (Cons e es)
  obtain idx n where e: "e = (idx, n)" by (cases e)
  from Cons.prems e have fail_n: "\<forall>k. is_failure (tf k n)"
    and fail_rest: "\<forall>k. \<forall>n \<in> snd ` set es. is_failure (tf k n)"
    by auto
  from retry_loop_all_fail [where tf=tf and n=n and a="new_attempt n" and m=m and tt=tt
      and chain=chain and idx=idx and st="clock w" and retries="py_range (max_retries m)"
      and le=le and w=w, OF fail_n new_attempt_simps(1) new_attempt_simps(2)]
  obtain a1 le1 w1 evs1 where
    r: "retry_loop m tf tt chain idx n (clock w) (py_range (max_retries m))
          (new_attempt n) le w = Continue a1 le1 w1"
      "\<not> attempt_success a1" "attempt_model_name a1 = n"
      "perf_log w1 = perf_log w @ evs1"
      "map attempt_event_of evs1 =
         replicate (length (py_range (max_retries m))) (Some (n, False))"
    by blast
  from Cons.IH [OF fail_rest, where le=le1 and lmu="Some n"
      and fec="fec @ [attempt_to_dict a1]" and w=w1]
  obtain le' lmu' ds evs w' where
    c: "chain_loop m tf tt chain es le1 (Some n) (fec @ [attempt_to_dict a1]) w1 =
          Exhausted le' lmu' ((fec @ [attempt_to_dict a1]) @ ds) w'"
      "map ad_model_name ds = map snd es" "\<forall>d \<in> set ds. \<not> ad_success d"
      "perf_log w' = perf_log w1 @ evs"
      "\<forall>ev \<in> set evs. \<exists>n. attempt_event_of ev = Some (n, False)"
    by blast
  have ev1: "\<forall>ev \<in> set evs1. \<exists>n. attempt_event_of ev = Some (n, False)"
  proof
    fix ev assume "ev \<in> set evs1"
    then have "attempt_event_of ev \<in> set (map attempt_event_of evs1)" by simp
    then have "attempt_event_of ev = Some (n, False)" unfolding r(5) by simp
    then show "\<exists>n. attempt_event_of ev = Some (n, False)" by blast
  qed
  let ?ds = "attempt_to_dict a1 # ds"
  have 1: "chain_loop m tf tt chain (e # es) le lmu fec w = Exhausted le' lmu' (fec @ ?ds) w'"
    using e r(1) c(1) by (simp add: Let_def)
  have 2: "map ad_model_name ?ds = map snd (e # es)"
    using c(2) r(3) e by (simp add: attempt_to_dict_def)
  have 3: "\<forall>d \<in> set ?ds. \<not> ad_success d"
    using c(3) r(2) by (simp add: attempt_to_dict_def)
  have 4: "perf_log w' = perf_log w @ (evs1 @ evs)"
    using c(4) r(4) by simp
  have 5: "\<forall>ev \<in> set (evs1 @ evs). \<exists>n. attempt_event_of ev = Some (n, False)"
    using ev1 c(5) by auto
  from 1 2 3 4 5 show ?case by blast
qed

lemma chain_loop_counters:
  "case chain_loop m tf tt chain es le lmu fec w of
     Exhausted le' lmu' fec' w' \<Rightarrow>
       (\<forall>x. total_of (metrics w') x - int (count_list (calls w') x) =
            total_of (metrics w) x - int (count_list (calls w) x)) \<and>
       (\<forall>x. success_of (metrics w') x = success_of (metrics w) x)
   | Returned r a' w' \<Rightarrow>
       attempt_success a' \<and>
       (\<forall>x. total_of (metrics w') x - int (count_list (calls w') x) =
            total_of (metrics w) x - int (count_list (calls w) x) +
            (if x = attempt_model_name a' then 1 else 0)) \<and>
       (\<forall>x. success_of (metrics w') x =
            success_of (metrics w) x + (if x = attempt_model_name a' then 2 else 0))"
proof (induction es arbitrary: le lmu fec w)
  case Nil
  then show ?case by simp
next
  case (Cons e es)
  obtain idx n where e: "e = (idx, n)" by (cases e)
  note rl = retry_loop_counters [where a="new_attempt n" and n=n and m=m and tf=tf
      and tt=tt and chain=chain and idx=idx and st="clock w"
      and retries="py_range (max_retries m)" and le=le and w=w,
      OF new_attempt_simps(1) new_attempt_simps(2)]
  show ?case
  proof (cases "retry_loop m tf tt chain idx n (clock w) (py_range (max_retries m))
                  (new_attempt n) le w")
    case (Return r a1 w1)
    with rl e show ?thesis by (simp add: Let_def)
  next
    case (Continue a1 le1 w1)
    with rl have d1: "\<forall>x. total_of (metrics w1) x - int (count_list (calls w1) x) =
            total_of (metrics w) x - int (count_list (calls w) x)"
      and s1: "\<forall>x. success_of (metrics w1) x = success_of (metrics w) x"
      by simp_all
    from Cons.IH [where le=le1 and lmu="Some n" and fec="fec @ [attempt_to_dict a1]" and w=w1]
    show ?thesis
      using e Continue d1 s1 by (simp add: Let_def split: chain_flow.splits)
  qed
qed

lemma zip_enumerate: "map snd (zip [0..<length xs] xs) = xs"
  by (simp add: map_snd_zip)

lemma set_zip_enumerate: "snd ` set (zip [0..<length xs] xs) = set xs"
  by (metis zip_enumerate set_map)

text \<open>
  Claim C3, amended.  When every model of the chain fails on every attempt (it raises or
  times out whenever it is called), \<open>execute_with_fallback\<close> returns \<open>None\<close> with a fresh
  attempt record whose \<open>success\<close> is \<open>False\<close> and whose error is
  \<open>RuntimeError("All models in fallback chain failed")\<close>.  The events the run logs are
  failed \<open>model_attempt\<close> events followed by exactly one \<open>fallback_chain_exhausted\<close> event,
  whose \<open>attempts\<close> list holds one unsuccessful attempt dictionary per model of the chain,
  in chain order.
\<close>

theorem execute_with_fallback_exhausted:
  assumes "get_fallback_chain m task_type = Inr chain"
    and "\<forall>k. \<forall>n \<in> set chain. is_failure (task_func k n)"
  shows "\<exists>w' evs attempts last_model_used err ts.
           execute_with_fallback m task_func task_type w =
             Inr (None,
                  \<lparr>attempt_model_name = '''', attempt_success = False,
                   attempt_response = None,
                   attempt_error =
                     Some (PyException RuntimeError ''All models in fallback chain failed''),
                   attempt_duration = 0, attempt_retry_count = 0\<rparr>,
                  w') \<and>
           perf_log w' = perf_log w @ evs @
             [Fallback_chain_exhausted task_type chain attempts last_model_used False err ts] \<and>
           (\<forall>ev \<in> set evs. \<exists>n. attempt_event_of ev = Some (n, False)) \<and>
           map ad_model_name attempts = chain \<and>
           (\<forall>d \<in> set attempts. \<not> ad_success d)"
proof -
  let ?es = "zip [0..<length chain] chain"
  from assms(2) have "\<forall>k. \<forall>n \<in> snd ` set ?es. is_failure (task_func k n)"
    by (simp only: set_zip_enumerate)
  from chain_loop_all_fail [OF this, where m=m and tt=task_type and chain=chain
      and le=None and lmu=None and fec="[]" and w=w]
  obtain le' lmu' ds evs w1 where
    c: "chain_loop m task_func task_type chain ?es None None [] w =
          Exhausted le' lmu' ([] @ ds) w1"
      "map ad_model_name ds = map snd ?es" "\<forall>d \<in> set ds. \<not> ad_success d"
      "perf_log w1 = perf_log w @ evs"
      "\<forall>ev \<in> set evs. \<exists>n. attempt_event_of ev = Some (n, False)"
    by blast
  let ?ev = "Fallback_chain_exhausted task_type chain ds lmu' False (map_option exc_str le')"
  let ?w' = "log_performance_event ?ev w1"
  have res: "execute_with_fallback m task_func task_type w =
             Inr (None,
                  \<lparr>attempt_model_name = '''', attempt_success = False,
                   attempt_response = None,
                   attempt_error =
                     Some (PyException RuntimeError ''All models in fallback chain failed''),
                   attempt_duration = 0, attempt_retry_count = 0\<rparr>,
                  ?w')"
    using assms(1) c(1) by (simp add: execute_with_fallback_def)
  have log: "perf_log ?w' = perf_log w @ evs @ [?ev (clock w1)]"
    using c(4) by (simp add: log_performance_event_def)
  have names: "map ad_model_name ds = chain"
    using c(2) by (simp only: zip_enumerate)
  from res log c(5) names c(3) show ?thesis by blast
qed


lemma zip_enumerate_two:
  "zip [0..<length (a # b # rest)] (a # b # rest) =
     (0, a) # (Suc 0, b) # zip [Suc (Suc 0)..<length (a # b # rest)] rest"
proof -
  have "[0..<length (a # b # rest)] = 0 # Suc 0 # [Suc (Suc 0)..<length (a # b # rest)]"
    by (simp add: upt_conv_Cons del: upt_Suc)
  then show ?thesis by (simp only: zip_Cons_Cons)
qed

text \<open>
  Claim C2.  Let the chain begin with \<open>modelA\<close> and \<open>modelB\<close>, followed by any further
  models, and let \<open>max_retries = 2\<close>, every call of \<open>modelA\<close> fail and every call of \<open>modelB\<close>
  return \<open>result\<close>.  Then \<open>execute_with_fallback\<close> returns \<open>result\<close> with an attempt record
  for \<open>modelB\<close> that is successful, holds the result and has retry index 0.  The run logs
  exactly three events, all \<open>model_attempt\<close>: two failed ones for \<open>modelA\<close>, then one
  successful one for \<open>modelB\<close>; and the task function is called exactly three times, twice
  with \<open>modelA\<close> and once with \<open>modelB\<close>.  So the run stops at the first success: \<open>modelB\<close>
  is not retried and no model of the rest of the chain is attempted.  The attempts recorded
  are the events of the performance log.
\<close>

theorem execute_with_fallback_second_model:
  assumes chain: "get_fallback_chain m task_type = Inr (modelA # modelB # rest)"
    and retries: "max_retries m = 2"
    and failA: "\<forall>k. is_failure (task_func k modelA)"
    and succB: "\<forall>k. \<exists>d. task_func k modelB = Returns result d"
  shows "\<exists>attempt w' evs.
           execute_with_fallback m task_func task_type w = Inr (Some result, attempt, w') \<and>
           attempt_success attempt \<and> attempt_model_name attempt = modelB \<and>
           attempt_response attempt = Some result \<and> attempt_retry_count attempt = 0 \<and>
           perf_log w' = perf_log w @ evs \<and>
           map attempt_event_of evs =
             [Some (modelA, False), Some (modelA, False), Some (modelB, True)] \<and>
           calls w' = calls w @ [modelA, modelA, modelB]"
proof -
  define fallback_chain where "fallback_chain = modelA # modelB # rest"
  have range: "py_range (max_retries m) = [0, 1]"
    by (simp add: retries py_range_def upt_rec)
  from retry_loop_all_fail [where tf=task_func and n=modelA and a="new_attempt modelA"
      and m=m and tt=task_type and chain=fallback_chain and idx=0 and st="clock w"
      and retries="[0, 1]" and le=None and w=w,
      OF failA new_attempt_simps(1) new_attempt_simps(2)]
  obtain a1 le1 w1 evs1 where
    r: "retry_loop m task_func task_type fallback_chain 0 modelA (clock w) [0, 1]
          (new_attempt modelA) None w = Continue a1 le1 w1"
      "calls w1 = calls w @ replicate (length [0::int, 1]) modelA"
      "perf_log w1 = perf_log w @ evs1"
      "map attempt_event_of evs1 = replicate (length [0::int, 1]) (Some (modelA, False))"
    by blast
  note eff = try_model_effect [where a="new_attempt modelB" and n=modelB and m=m
      and tf=task_func and tt=task_type and chain=fallback_chain and idx="Suc 0"
      and st="clock w1" and retry=0 and le=le1 and w=w1,
      OF new_attempt_simps(1) new_attempt_simps(2)]
  from succB obtain d where d: "task_func (length (calls w1)) modelB = Returns result d"
    by blast
  obtain a2 w2 where
    t: "try_model m task_func task_type fallback_chain (Suc 0) modelB (clock w1) 0
          (new_attempt modelB) le1 w1 = Return result a2 w2"
  proof (cases "try_model m task_func task_type fallback_chain (Suc 0) modelB (clock w1) 0
          (new_attempt modelB) le1 w1")
    case (Return r a2 w2)
    with eff d have "r = result" by simp
    with Return that show ?thesis by blast
  next
    case (Continue a2 le2 w2)
    with eff have "is_failure (task_func (length (calls w1)) modelB)" by simp
    with d have False by (simp add: is_failure_def)
    then show ?thesis ..
  qed
  from eff t obtain ev where
    p: "attempt_success a2" "attempt_model_name a2 = modelB"
      "attempt_response a2 = Some result" "attempt_retry_count a2 = 0"
      "calls w2 = calls w1 @ [modelB]"
      "perf_log w2 = perf_log w1 @ [ev]" "attempt_event_of ev = Some (modelB, True)"
    by auto
  have second: "retry_loop m task_func task_type fallback_chain (Suc 0) modelB (clock w1)
          [0, 1] (new_attempt modelB) le1 w1 = Return result a2 w2"
    by (simp only: retry_loop.simps t retry_flow.case)
  have loop: "chain_loop m task_func task_type fallback_chain
        ((0, modelA) # (Suc 0, modelB) #
           zip [Suc (Suc 0)..<length (modelA # modelB # rest)] rest)
        None None [] w = Returned result a2 w2"
    by (simp only: chain_loop.simps Let_def range r(1) second retry_flow.case)
  have res: "execute_with_fallback m task_func task_type w = Inr (Some result, a2, w2)"
    unfolding execute_with_fallback_def chain sum.case zip_enumerate_two
    using loop by (simp only: fallback_chain_def chain_flow.case)
  have log: "perf_log w2 = perf_log w @ (evs1 @ [ev])"
    using p(6) r(3) by simp
  have evs: "map attempt_event_of (evs1 @ [ev]) =
      [Some (modelA, False), Some (modelA, False), Some (modelB, True)]"
    using r(4) p(7) by simp
  have cl: "calls w2 = calls w @ [modelA, modelA, modelB]"
    using p(5) r(2) by simp
  show ?thesis
    using res p(1-4) log evs cl
    by (intro exI [of _ a2] exI [of _ w2] exI [of _ "evs1 @ [ev]"]) simp
qed

text \<open>
  Claim C10.  In every run of \<open>execute_with_fallback\<close> that returns a successful attempt,
  the successful call is entered into the metrics twice (once in the success branch, once
  in the \<open>finally\<close> clause): for the model that succeeded, \<open>successful_attempts\<close> grows by 2
  although the run returns at its first successful call, and \<open>total_attempts\<close> grows by one
  more than the number of calls the run made to that model, hence by 2 when the successful
  call is the only one; for every other model \<open>total_attempts\<close> grows by the number of calls
  made to it and \<open>successful_attempts\<close> stays.
\<close>

theorem successful_attempt_counted_twice:
  assumes "execute_with_fallback m task_func task_type w = Inr (result, attempt, w')"
    and "attempt_success attempt"
  shows "(\<forall>x. total_of (metrics w') x - total_of (metrics w) x =
              int (count_list (calls w') x) - int (count_list (calls w) x) +
              (if x = attempt_model_name attempt then 1 else 0)) \<and>
         (\<forall>x. success_of (metrics w') x - success_of (metrics w) x =
              (if x = attempt_model_name attempt then 2 else 0))"
proof -
  from assms(1) obtain chain where chain: "get_fallback_chain m task_type = Inr chain"
    by (cases "get_fallback_chain m task_type") (simp_all add: execute_with_fallback_def)
  let ?es = "zip [0..<length chain] chain"
  note cc = chain_loop_counters [where m=m and tf=task_func and tt=task_type
      and chain=chain and es="?es" and le=None and lmu=None and fec="[]" and w=w]
  show ?thesis
  proof (cases "chain_loop m task_func task_type chain ?es None None [] w")
    case (Returned r a1 w1)
    with assms(1) chain have eq: "attempt = a1" "w' = w1"
      by (simp_all add: execute_with_fallback_def)
    from cc Returned show ?thesis unfolding eq by (simp add: algebra_simps)
  next
    case (Exhausted le1 lmu1 fec1 w1)
    with assms(1) chain have "\<not> attempt_success attempt"
      by (auto simp: execute_with_fallback_def Let_def)
    with assms(2) show ?thesis by simp
  qed
qed

lemma demo_run_value:
  "demo_run =
     Inr (Some ''Response from p2/modelB'',
      \<lparr>attempt_model_name = ''p2/modelB'', attempt_success = True,
         attempt_response = Some ''Response from p2/modelB'',
         attempt_error = None, attempt_duration = 3,
         attempt_retry_count = 0\<rparr>,
      \<lparr>metrics =
         [(''p1/modelA'',
           \<lparr>total_attempts = 2, successful_attempts = 0, total_duration = 3,
              last_used = 2\<rparr>),
          (''p2/modelB'',
           \<lparr>total_attempts = 2, successful_attempts = 2, total_duration = 6,
              last_used = 5\<rparr>)],
         perf_log =
           [Model_attempt ''p1/modelA'' False (Some ''Simulated failure'') 1
             0 ''text'' [''p1/modelA'', ''p2/modelB''] 0 1,
            Model_attempt ''p1/modelA'' False (Some ''Simulated failure'') 2
             1 ''text'' [''p1/modelA'', ''p2/modelB''] 0 2,
            Model_attempt ''p2/modelB'' True None 3 0 ''text''
             [''p1/modelA'', ''p2/modelB''] 1 5],
         clock = 5, calls = [''p1/modelA'', ''p1/modelA'', ''p2/modelB''],
         http_requests = []\<rparr>)"
  by code_simp

lemma demo_failed_run_value:
  "demo_failed_run =
     Inr (None,
      \<lparr>attempt_model_name = [], attempt_success = False,
         attempt_response = None,
         attempt_error =
           Some (PyException RuntimeError ''All models in fallback chain failed''),
         attempt_duration = 0, attempt_retry_count = 0\<rparr>,
      \<lparr>metrics =
         [(''p1/modelA'',
           \<lparr>total_attempts = 2, successful_attempts = 0, total_duration = 3,
              last_used = 2\<rparr>),
          (''p2/modelB'',
           \<lparr>total_attempts = 2, successful_attempts = 0, total_duration = 3,
              last_used = 4\<rparr>)],
         perf_log =
           [Model_attempt ''p1/modelA'' False (Some ''Simulated failure'') 1
             0 ''code'' [''p1/modelA'', ''p2/modelB''] 0 1,
            Model_attempt ''p1/modelA'' False (Some ''Simulated failure'') 2
             1 ''code'' [''p1/modelA'', ''p2/modelB''] 0 2,
            Model_attempt ''p2/modelB'' False (Some ''Simulated failure'') 1
             0 ''code'' [''p1/modelA'', ''p2/modelB''] 1 3,
            Model_attempt ''p2/modelB'' False (Some ''Simulated failure'') 2
             1 ''code'' [''p1/modelA'', ''p2/modelB''] 1 4,
            Fallback_chain_exhausted ''code'' [''p1/modelA'', ''p2/modelB'']
             [\<lparr>ad_model_name = ''p1/modelA'', ad_success = False,
                 ad_error = Some ''Simulated failure'', ad_duration = 2,
                 ad_retry_count = 1\<rparr>,
              \<lparr>ad_model_name = ''p2/modelB'', ad_success = False,
                 ad_error = Some ''Simulated failure'', ad_duration = 2,
                 ad_retry_count = 1\<rparr>]
             (Some ''p2/modelB'') False (Some ''Simulated failure'') 4],
         clock = 4,
         calls = [''p1/modelA'', ''p1/modelA'', ''p2/modelB'', ''p2/modelB''],
         http_requests = []\<rparr>)"
  by code_simp

lemma demo_chain:
  "get_fallback_chain demo_manager ''text'' = Inr [''p1/modelA'', ''p2/modelB'']"
  "get_fallback_chain demo_manager ''code'' = Inr [''p1/modelA'', ''p2/modelB'']"
  by (simp_all add: get_fallback_chain_def demo_manager_def)

theorem execute_with_fallback_exhausted_counterexample:
  "run_result demo_failed_run = None \<and>
   \<not> attempt_success (run_attempt demo_failed_run) \<and>
   attempt_error (run_attempt demo_failed_run) =
     Some (PyException RuntimeError ''All models in fallback chain failed'') \<and>
   map_option exc_str (attempt_error (run_attempt demo_failed_run)) \<noteq>
     Some ''all models failed''"
  by (simp add: demo_failed_run_value run_result_def run_attempt_def)

theorem execute_with_fallback_exhausted_witness:
  "get_fallback_chain demo_manager ''code'' = Inr [''p1/modelA'', ''p2/modelB''] \<and>
   is_failure (failing_task 0 ''p1/modelA'') \<and> is_failure (failing_task 0 ''p2/modelB'') \<and>
   run_result demo_failed_run = None \<and>
   attempt_error (run_attempt demo_failed_run) =
     Some (PyException RuntimeError ''All models in fallback chain failed'') \<and>
   length (filter (\<lambda>ev. attempt_event_of ev = None) (perf_log (run_world demo_failed_run))) = 1"
proof -
  have fail: "\<forall>k. \<forall>n \<in> set [''p1/modelA'', ''p2/modelB'']. is_failure (failing_task k n)"
    by (simp add: failing_task_def is_failure_def)
  from execute_with_fallback_exhausted [OF demo_chain(2) fail, of initial_world]
  obtain w' evs attempts last_model_used err ts where
    r: "demo_failed_run =
          Inr (None,
               \<lparr>attempt_model_name = [], attempt_success = False,
                attempt_response = None,
                attempt_error =
                  Some (PyException RuntimeError ''All models in fallback chain failed''),
                attempt_duration = 0, attempt_retry_count = 0\<rparr>,
               w')"
      "perf_log w' = perf_log initial_world @ evs @
         [Fallback_chain_exhausted ''code'' [''p1/modelA'', ''p2/modelB''] attempts
            last_model_used False err ts]"
      "\<forall>ev \<in> set evs. \<exists>n. attempt_event_of ev = Some (n, False)"
    unfolding demo_failed_run_def by blast
  have nn: "attempt_event_of ev \<noteq> None" if "ev \<in> set evs" for ev
  proof -
    from r(3) that obtain n where "attempt_event_of ev = Some (n, False)" by blast
    then show ?thesis by simp
  qed
  have "filter (\<lambda>ev. attempt_event_of ev = None) evs = []"
    by (simp add: filter_empty_conv nn)
  with r(2) have "length (filter (\<lambda>ev. attempt_event_of ev = None) (perf_log w')) = 1"
    by (simp add: initial_world_def)
  moreover have "run_result demo_failed_run = None"
    "attempt_error (run_attempt demo_failed_run) =
       Some (PyException RuntimeError ''All models in fallback chain failed'')"
    "run_world demo_failed_run = w'"
    by (simp_all add: r(1) run_result_def run_attempt_def run_world_def)
  ultimately show ?thesis
    using fail demo_chain(2) by simp
qed

lemma demo_long_chain:
  "get_fallback_chain demo_long_manager ''text'' =
     Inr (''p1/modelA'' # ''p2/modelB'' # [''p3/modelC''])"
  by (simp add: get_fallback_chain_def demo_long_manager_def demo_manager_def)

theorem execute_with_fallback_second_model_witness:
  "get_fallback_chain demo_long_manager ''text'' =
     Inr [''p1/modelA'', ''p2/modelB'', ''p3/modelC''] \<and>
   max_retries demo_long_manager = 2 \<and>
   is_failure (demo_task 0 ''p1/modelA'') \<and>
   demo_task 0 ''p2/modelB'' = Returns ''Response from p2/modelB'' 3 \<and>
   run_result demo_long_run = Some ''Response from p2/modelB'' \<and>
   attempt_success (run_attempt demo_long_run) \<and>
   attempt_model_name (run_attempt demo_long_run) = ''p2/modelB'' \<and>
   map attempt_event_of (perf_log (run_world demo_long_run)) =
     [Some (''p1/modelA'', False), Some (''p1/modelA'', False), Some (''p2/modelB'', True)] \<and>
   calls (run_world demo_long_run) = [''p1/modelA'', ''p1/modelA'', ''p2/modelB'']"
proof -
  have retries: "max_retries demo_long_manager = 2"
    by (simp add: demo_long_manager_def demo_manager_def)
  have failA: "\<forall>k. is_failure (demo_task k ''p1/modelA'')"
    by (simp add: demo_task_def is_failure_def)
  have succB: "\<forall>k. \<exists>d. demo_task k ''p2/modelB'' = Returns ''Response from p2/modelB'' d"
    by (simp add: demo_task_def)
  from execute_with_fallback_second_model [OF demo_long_chain retries failA succB,
      of initial_world]
  obtain attempt w' evs where
    r: "execute_with_fallback demo_long_manager demo_task ''text'' initial_world =
          Inr (Some ''Response from p2/modelB'', attempt, w')"
      "attempt_success attempt" "attempt_model_name attempt = ''p2/modelB''"
      "perf_log w' = perf_log initial_world @ evs"
      "map attempt_event_of evs =
         [Some (''p1/modelA'', False), Some (''p1/modelA'', False), Some (''p2/modelB'', True)]"
      "calls w' = calls initial_world @ [''p1/modelA'', ''p1/modelA'', ''p2/modelB'']"
    by (elim exE conjE) (rule that, assumption+)
  have "demo_task 0 ''p2/modelB'' = Returns ''Response from p2/modelB'' 3"
    by (simp add: demo_task_def)
  moreover have "run_result demo_long_run = Some ''Response from p2/modelB''"
    "run_attempt demo_long_run = attempt" "run_world demo_long_run = w'"
    by (simp_all add: r(1) demo_long_run_def run_result_def run_attempt_def run_world_def)
  ultimately show ?thesis
    using r(2-6) failA retries demo_long_chain by (simp add: initial_world_def)
qed

theorem successful_attempt_counted_twice_witness:
  "demo_run = Inr (run_result demo_run, run_attempt demo_run, run_world demo_run) \<and>
   attempt_success (run_attempt demo_run) \<and>
   attempt_model_name (run_attempt demo_run) = ''p2/modelB'' \<and>
   count_list (calls (run_world demo_run)) ''p2/modelB'' = 1 \<and>
   total_of (metrics (run_world demo_run)) ''p2/modelB'' = 2 \<and>
   success_of (metrics (run_world demo_run)) ''p2/modelB'' = 2"
proof -
  have run: "demo_run = Inr (run_result demo_run, run_attempt demo_run, run_world demo_run)"
    by (simp add: demo_run_value run_result_def run_attempt_def run_world_def)
  have succ: "attempt_success (run_attempt demo_run)"
    and nm: "attempt_model_name (run_attempt demo_run) = ''p2/modelB''"
    and cnt: "count_list (calls (run_world demo_run)) ''p2/modelB'' = 1"
    by (simp_all add: demo_run_value run_attempt_def run_world_def)
  have init: "total_of (metrics initial_world) ''p2/modelB'' = 0"
    "success_of (metrics initial_world) ''p2/modelB'' = 0"
    "count_list (calls initial_world) ''p2/modelB'' = 0"
    by (simp_all add: initial_world_def total_of_def success_of_def)
  from successful_attempt_counted_twice [where m=demo_manager and task_func=demo_task
      and task_type="''text''" and w=initial_world, folded demo_run_def, OF run succ]
  have "total_of (metrics (run_world demo_run)) ''p2/modelB'' -
          total_of (metrics initial_world) ''p2/modelB'' =
        int (count_list (calls (run_world demo_run)) ''p2/modelB'') -
          int (count_list (calls initial_world) ''p2/modelB'') + 1"
    and "success_of (metrics (run_world demo_run)) ''p2/modelB'' -
          success_of (metrics initial_world) ''p2/modelB'' = 2"
    using nm by (simp_all add: demo_run_def)
  with init cnt have "total_of (metrics (run_world demo_run)) ''p2/modelB'' = 2"
    "success_of (metrics (run_world demo_run)) ''p2/modelB'' = 2"
    by simp_all
  with run succ nm cnt show ?thesis by simp
qed
section \<open>Properties of the provider clients, \<open>execute_task\<close> and the default route\<close>










text \<open>
  Claim C6, amended.  For a prompt that no task matches, keyword routing returns the
  configuration of the default task (the task named by \<open>default_task\<close>, or \<open>general_chat\<close>
  when no default is set) if the configuration defines it, and otherwise returns the empty
  configuration \<open>{}\<close>; it raises nothing in either case.  The chain lookup
  \<open>get_fallback_chain\<close> is the one that fails fast: without a \<open>text\<close> chain it raises
  \<open>KeyError\<close>, and with one it returns the \<open>text\<close> chain for a task type that has no chain
  of its own.
\<close>

theorem keyword_routing_default:
  assumes "\<forall>t \<in> set (tasks config). \<not> task_matches prompt (snd t)"
    and "default_task_name =
           (case default_task config of None \<Rightarrow> ''general_chat'' | Some n \<Rightarrow> n)"
  shows "(\<forall>task_config. map_of (tasks config) default_task_name = Some task_config \<longrightarrow>
            route_task_prompt config prompt = Inr task_config) \<and>
         (map_of (tasks config) default_task_name = None \<longrightarrow>
            route_task_prompt config prompt = Inr empty_task_config) \<and>
         (map_of (fallback_chains m) ''text'' = None \<longrightarrow>
            get_fallback_chain m task_type = Inl (PyException KeyError (quoted ''text''))) \<and>
         (\<forall>text_chain. map_of (fallback_chains m) ''text'' = Some text_chain \<and>
            map_of (fallback_chains m) task_type = None \<longrightarrow>
            get_fallback_chain m task_type = Inr text_chain)"
proof -
  from assms(1) have "find (\<lambda>t. task_matches prompt (snd t)) (tasks config) = None"
    by (auto simp: find_None_iff)
  then have none: "task_loop (lower prompt) (tasks config) = None"
    by (simp add: task_loop_find)
  have 1: "\<forall>task_config. map_of (tasks config) default_task_name = Some task_config \<longrightarrow>
            route_task_prompt config prompt = Inr task_config"
    by (simp add: route_task_prompt_def none assms(2))
  have 2: "map_of (tasks config) default_task_name = None \<longrightarrow>
            route_task_prompt config prompt = Inr empty_task_config"
    by (simp add: route_task_prompt_def none assms(2))
  have 3: "map_of (fallback_chains m) ''text'' = None \<longrightarrow>
            get_fallback_chain m task_type = Inl (PyException KeyError (quoted ''text''))"
    by (simp add: get_fallback_chain_def quoted_def)
  have 4: "\<forall>text_chain. map_of (fallback_chains m) ''text'' = Some text_chain \<and>
            map_of (fallback_chains m) task_type = None \<longrightarrow>
            get_fallback_chain m task_type = Inr text_chain"
    by (simp add: get_fallback_chain_def)
  from 1 2 3 4 show ?thesis by blast
qed

theorem keyword_routing_default_counterexample:
  "task_loop (lower ''hello'') (tasks demo_config_no_default) = None \<and>
   default_task demo_config_no_default = Some ''smalltalk'' \<and>
   map_of (tasks demo_config_no_default) ''smalltalk'' = None \<and>
   route_task_prompt demo_config_no_default ''hello'' = Inr empty_task_config"
proof -
  have c1: "task_loop (lower ''hello'') (tasks demo_config_no_default) = None"
    by code_simp
  have c2: "default_task demo_config_no_default = Some ''smalltalk''"
    by (simp add: demo_config_no_default_def)
  have c3: "map_of (tasks demo_config_no_default) ''smalltalk'' = None"
    by (simp add: demo_config_no_default_def demo_config_def)
  have c4: "route_task_prompt demo_config_no_default ''hello'' = Inr empty_task_config"
    by (simp add: route_task_prompt_def c1 c2 c3)
  from c1 c2 c3 c4 show ?thesis by simp
qed

theorem keyword_routing_default_witness:
  "list_all (\<lambda>t. \<not> task_matches ''hello'' (snd t)) (tasks demo_config) \<and>
   default_task demo_config = Some ''general_chat'' \<and>
   route_task_prompt demo_config ''hello'' =
     Inr \<lparr>routing_keywords = None, primary_model = None,
          fallback_models = None, models = Some [''ollama/llama3'']\<rparr> \<and>
   list_all (\<lambda>t. \<not> task_matches ''hello'' (snd t)) (tasks demo_config_no_default) \<and>
   route_task_prompt demo_config_no_default ''hello'' = Inr empty_task_config \<and>
   get_fallback_chain (demo_manager\<lparr>fallback_chains := []\<rparr>) ''code'' =
     Inl (PyException KeyError (quoted ''text''))"
proof -
  have "list_all (\<lambda>t. \<not> keyword_loop (lower ''hello'')
          (case routing_keywords (snd t) of None \<Rightarrow> [] | Some kws \<Rightarrow> kws)) (tasks demo_config)"
    by code_simp
  then have n1: "list_all (\<lambda>t. \<not> task_matches ''hello'' (snd t)) (tasks demo_config)"
    by (simp only: keyword_loop_matches)
  have tasks_eq: "tasks demo_config_no_default = tasks demo_config"
    by (simp add: demo_config_no_default_def)
  from n1 have n2: "list_all (\<lambda>t. \<not> task_matches ''hello'' (snd t))
      (tasks demo_config_no_default)"
    by (simp only: tasks_eq)
  have h1: "\<forall>t \<in> set (tasks demo_config). \<not> task_matches ''hello'' (snd t)"
    using n1 by (simp only: list_all_iff)
  have h2: "\<forall>t \<in> set (tasks demo_config_no_default). \<not> task_matches ''hello'' (snd t)"
    using n2 by (simp only: list_all_iff)
  have d1: "default_task demo_config = Some ''general_chat''"
    by (simp add: demo_config_def)
  have g1: "''general_chat'' =
      (case default_task demo_config of None \<Rightarrow> ''general_chat'' | Some n \<Rightarrow> n)"
    by (simp add: d1)
  have g2: "''smalltalk'' =
      (case default_task demo_config_no_default of None \<Rightarrow> ''general_chat'' | Some n \<Rightarrow> n)"
    by (simp add: demo_config_no_default_def)
  have l1: "map_of (tasks demo_config) ''general_chat'' =
      Some \<lparr>routing_keywords = None, primary_model = None,
            fallback_models = None, models = Some [''ollama/llama3'']\<rparr>"
    by (simp add: demo_config_def)
  have l2: "map_of (tasks demo_config_no_default) ''smalltalk'' = None"
    by (simp add: demo_config_no_default_def demo_config_def)
  have l3: "map_of (fallback_chains (demo_manager\<lparr>fallback_chains := []\<rparr>)) ''text'' = None"
    by simp
  note a = keyword_routing_default [OF h1 g1,
      where m="demo_manager\<lparr>fallback_chains := []\<rparr>" and task_type="''code''"]
  note b = keyword_routing_default [OF h2 g2,
      where m="demo_manager\<lparr>fallback_chains := []\<rparr>" and task_type="''code''"]
  have r1: "route_task_prompt demo_config ''hello'' =
     Inr \<lparr>routing_keywords = None, primary_model = None,
          fallback_models = None, models = Some [''ollama/llama3'']\<rparr>"
    by (rule a [THEN conjunct1, THEN spec, THEN mp, OF l1])
  have r2: "route_task_prompt demo_config_no_default ''hello'' = Inr empty_task_config"
    by (rule b [THEN conjunct2, THEN conjunct1, THEN mp, OF l2])
  have r3: "get_fallback_chain (demo_manager\<lparr>fallback_chains := []\<rparr>) ''code'' =
     Inl (PyException KeyError (quoted ''text''))"
    by (rule a [THEN conjunct2, THEN conjunct2, THEN conjunct1, THEN mp, OF l3])
  show ?thesis
    by (intro conjI n1 d1 r1 n2 r2 r3)
qed

end
